theory Spec2Isabelle
  imports Complex_Main
begin

section \<open>Numbers and vectors\<close>

text \<open>
  The tracer computes with single-precision floats. The model keeps the special values
  apart from the finite ones, because the code branches on them (\<open>std::isnan\<close>) and
  divides without a guard: a finite value is a real number, an infinity carries its sign
  (\<open>True\<close> is the negative one). Rounding, overflow of a finite result and the sign of
  zero are not modelled.
\<close>

datatype float = Finite real | Infinite bool | NaN

fun isnan :: "float \<Rightarrow> bool" where
  "isnan NaN = True"
| "isnan _ = False"

fun isfinite :: "float \<Rightarrow> bool" where
  "isfinite (Finite a) = True"
| "isfinite _ = False"

fun fneg :: "float \<Rightarrow> float" where
  "fneg (Finite a) = Finite (- a)"
| "fneg (Infinite s) = Infinite (\<not> s)"
| "fneg NaN = NaN"

fun fabs :: "float \<Rightarrow> float" where
  "fabs (Finite a) = Finite \<bar>a\<bar>"
| "fabs (Infinite s) = Infinite False"
| "fabs NaN = NaN"

fun fadd :: "float \<Rightarrow> float \<Rightarrow> float" where
  "fadd NaN _ = NaN"
| "fadd _ NaN = NaN"
| "fadd (Finite a) (Finite b) = Finite (a + b)"
| "fadd (Finite a) (Infinite t) = Infinite t"
| "fadd (Infinite s) (Finite b) = Infinite s"
| "fadd (Infinite s) (Infinite t) = (if s = t then Infinite s else NaN)"

definition fsub :: "float \<Rightarrow> float \<Rightarrow> float" where
  "fsub a b = fadd a (fneg b)"

fun fmul :: "float \<Rightarrow> float \<Rightarrow> float" where
  "fmul NaN _ = NaN"
| "fmul _ NaN = NaN"
| "fmul (Finite a) (Finite b) = Finite (a * b)"
| "fmul (Finite a) (Infinite t) = (if a = 0 then NaN else Infinite (t \<noteq> (a < 0)))"
| "fmul (Infinite s) (Finite b) = (if b = 0 then NaN else Infinite (s \<noteq> (b < 0)))"
| "fmul (Infinite s) (Infinite t) = Infinite (s \<noteq> t)"

fun fdiv :: "float \<Rightarrow> float \<Rightarrow> float" where
  "fdiv NaN _ = NaN"
| "fdiv _ NaN = NaN"
| "fdiv (Finite a) (Finite b) =
     (if b = 0 then (if a = 0 then NaN else Infinite (a < 0)) else Finite (a / b))"
| "fdiv (Finite a) (Infinite t) = Finite 0"
| "fdiv (Infinite s) (Finite b) = Infinite (s \<noteq> (b < 0))"
| "fdiv (Infinite s) (Infinite t) = NaN"

fun fsqrt :: "float \<Rightarrow> float" where
  "fsqrt (Finite a) = (if a < 0 then NaN else Finite (sqrt a))"
| "fsqrt (Infinite s) = (if s then NaN else Infinite False)"
| "fsqrt NaN = NaN"

text \<open>Comparisons: every comparison with a NaN is false.\<close>

fun flt :: "float \<Rightarrow> float \<Rightarrow> bool" where
  "flt (Finite a) (Finite b) = (a < b)"
| "flt (Finite a) (Infinite t) = (\<not> t)"
| "flt (Infinite s) (Finite b) = s"
| "flt (Infinite s) (Infinite t) = (s \<and> \<not> t)"
| "flt _ _ = False"

fun fle :: "float \<Rightarrow> float \<Rightarrow> bool" where
  "fle (Finite a) (Finite b) = (a \<le> b)"
| "fle (Finite a) (Infinite t) = (\<not> t)"
| "fle (Infinite s) (Finite b) = s"
| "fle (Infinite s) (Infinite t) = (s \<or> \<not> t)"
| "fle _ _ = False"

fun feq :: "float \<Rightarrow> float \<Rightarrow> bool" where
  "feq (Finite a) (Finite b) = (a = b)"
| "feq (Infinite s) (Infinite t) = (s = t)"
| "feq _ _ = False"

definition fgt :: "float \<Rightarrow> float \<Rightarrow> bool" where
  "fgt a b = flt b a"

definition fge :: "float \<Rightarrow> float \<Rightarrow> bool" where
  "fge a b = fle b a"

text \<open>
  Modelled from the spec: the helpers \<open>min\<close>, \<open>max\<close> and \<open>sqr\<close> and the constant
  \<open>INV_PI\<close> of the math utilities, which the sources at hand only use (the "tightest
  axis-aligned slab" is a minimum and a maximum, the kernel a square, the normalisation
  \<open>1/\<pi>\<close>).
\<close>

definition fmin :: "float \<Rightarrow> float \<Rightarrow> float" where
  "fmin a b = (if flt a b then a else b)"

definition fmax :: "float \<Rightarrow> float \<Rightarrow> float" where
  "fmax a b = (if fgt a b then a else b)"

definition sqr :: "float \<Rightarrow> float" where
  "sqr a = fmul a a"

definition INV_PI :: float where
  "INV_PI = Finite (1 / pi)"

text \<open>
  Modelled from the spec: the three-component vector \<open>Vec3f\<close> (positions, directions and
  spectral/RGB weights), whose declaration is not among the sources at hand: arithmetic is
  componentwise, \<open>avg\<close> is the component average, \<open>max\<close> and \<open>sum\<close> range over the
  components, \<open>maxDim\<close> is the dominant axis.
\<close>

datatype Vec3f = Vec3f (vx: float) (vy: float) (vz: float)

definition vconst :: "float \<Rightarrow> Vec3f" where
  "vconst a = Vec3f a a a"

definition vadd :: "Vec3f \<Rightarrow> Vec3f \<Rightarrow> Vec3f" where
  "vadd a b = Vec3f (fadd (vx a) (vx b)) (fadd (vy a) (vy b)) (fadd (vz a) (vz b))"

definition vsub :: "Vec3f \<Rightarrow> Vec3f \<Rightarrow> Vec3f" where
  "vsub a b = Vec3f (fsub (vx a) (vx b)) (fsub (vy a) (vy b)) (fsub (vz a) (vz b))"

definition vneg :: "Vec3f \<Rightarrow> Vec3f" where
  "vneg a = Vec3f (fneg (vx a)) (fneg (vy a)) (fneg (vz a))"

definition vmul :: "Vec3f \<Rightarrow> Vec3f \<Rightarrow> Vec3f" where
  "vmul a b = Vec3f (fmul (vx a) (vx b)) (fmul (vy a) (vy b)) (fmul (vz a) (vz b))"

definition vscale :: "Vec3f \<Rightarrow> float \<Rightarrow> Vec3f" where
  "vscale a s = Vec3f (fmul (vx a) s) (fmul (vy a) s) (fmul (vz a) s)"

definition svmul :: "float \<Rightarrow> Vec3f \<Rightarrow> Vec3f" where
  "svmul s a = Vec3f (fmul s (vx a)) (fmul s (vy a)) (fmul s (vz a))"

definition vdivs :: "Vec3f \<Rightarrow> float \<Rightarrow> Vec3f" where
  "vdivs a s = Vec3f (fdiv (vx a) s) (fdiv (vy a) s) (fdiv (vz a) s)"

definition vabs :: "Vec3f \<Rightarrow> Vec3f" where
  "vabs a = Vec3f (fabs (vx a)) (fabs (vy a)) (fabs (vz a))"

definition dot :: "Vec3f \<Rightarrow> Vec3f \<Rightarrow> float" where
  "dot a b = fadd (fadd (fmul (vx a) (vx b)) (fmul (vy a) (vy b))) (fmul (vz a) (vz b))"

definition cross :: "Vec3f \<Rightarrow> Vec3f \<Rightarrow> Vec3f" where
  "cross a b = Vec3f (fsub (fmul (vy a) (vz b)) (fmul (vz a) (vy b)))
                     (fsub (fmul (vz a) (vx b)) (fmul (vx a) (vz b)))
                     (fsub (fmul (vx a) (vy b)) (fmul (vy a) (vx b)))"

definition vlength :: "Vec3f \<Rightarrow> float" where
  "vlength a = fsqrt (dot a a)"

definition vsum :: "Vec3f \<Rightarrow> float" where
  "vsum a = fadd (fadd (vx a) (vy a)) (vz a)"

definition vavg :: "Vec3f \<Rightarrow> float" where
  "vavg a = fdiv (vsum a) (Finite 3)"

definition vmax :: "Vec3f \<Rightarrow> float" where
  "vmax a = fmax (fmax (vx a) (vy a)) (vz a)"

definition maxDim :: "Vec3f \<Rightarrow> nat" where
  "maxDim a = (if fgt (vz a) (fmax (vx a) (vy a)) then 2 else if fgt (vy a) (vx a) then 1 else 0)"

definition vnth :: "Vec3f \<Rightarrow> nat \<Rightarrow> float" where
  "vnth a i = (if i = 0 then vx a else if i = 1 then vy a else vz a)"

definition nonfinite :: "Vec3f \<Rightarrow> bool" where
  "nonfinite a = (\<not> isfinite (vx a) \<and> \<not> isfinite (vy a) \<and> \<not> isfinite (vz a))"

section \<open>Data model\<close>

text \<open>
  Collaborators the tracer only holds by pointer or reference (media, BSDFs, primitives,
  phase functions, shading frames, the intersection's temporary record, the medium transport
  state) are opaque handles; the sample stream is its current state.
\<close>

type_synonym Medium = nat
type_synonym Bsdf = nat
type_synonym Primitive = nat
type_synonym PhaseFunction = nat
type_synonym TangentFrame = nat
type_synonym IntersectionTemporary = nat
type_synonym MediumState = nat
type_synonym sampler = nat
type_synonym Vec2u = "nat \<times> nat"

text \<open>
  Modelled from the spec: the records below, whose declarations are not among the sources
  at hand, with the fields the tracer reads and writes. A ray is an origin, a direction,
  a parametric interval and the primary flag; a surface photon is position, direction,
  power and bounce index; a volume photon adds the squared radius; a path photon holds
  position, power, direction, segment length and the encoded (bounce, flag) pair that
  \<open>setPathInfo\<close> writes and \<open>bounce()\<close> reads.
\<close>

record Ray =
  rpos :: Vec3f
  rdir :: Vec3f
  nearT :: float
  farT :: float
  primaryRay :: bool

record Photon =
  pos :: Vec3f
  dir :: Vec3f
  power :: Vec3f
  bounce :: int

record VolumePhoton = Photon +
  radiusSq :: float

record PathPhoton =
  pp_pos :: Vec3f
  pp_power :: Vec3f
  pp_dir :: Vec3f
  pp_length :: float
  pp_data :: "int \<times> bool"

definition setPathInfo :: "int \<Rightarrow> bool \<Rightarrow> PathPhoton \<Rightarrow> PathPhoton" where
  "setPathInfo b f p = p\<lparr>pp_data := (b, f)\<rparr>"

definition pp_bounce :: "PathPhoton \<Rightarrow> int" where
  "pp_bounce p = fst (pp_data p)"

definition pp_flag :: "PathPhoton \<Rightarrow> bool" where
  "pp_flag p = snd (pp_data p)"

text \<open>
  Modelled from the spec: the bounded range, "a pre-sized output sequence with a capacity
  fixed at construction, current count, an append operation, and a full predicate". The
  storage is allocated by the caller; \<open>addPhoton\<close> hands out the next slot, which the
  tracer then fills in field by field (the function argument), so a field it does not
  write keeps what the slot held. The tracer calls it only on a range that is not full.
\<close>

record 'a PhotonRange =
  storage :: "'a list"
  count :: nat

definition capacity :: "'a PhotonRange \<Rightarrow> nat" where
  "capacity r = length (storage r)"

definition full :: "'a PhotonRange \<Rightarrow> bool" where
  "full r = (capacity r \<le> count r)"

definition addPhoton :: "('a \<Rightarrow> 'a) \<Rightarrow> 'a PhotonRange \<Rightarrow> 'a PhotonRange" where
  "addPhoton f r = r\<lparr>storage := (storage r)[count r := f (storage r ! count r)],
                      count := Suc (count r)\<rparr>"

definition deposited :: "'a PhotonRange \<Rightarrow> 'a list" where
  "deposited r = take (count r) (storage r)"

record PositionSample =
  ps_p :: Vec3f
  ps_weight :: Vec3f

record DirectionSample =
  ds_d :: Vec3f
  ds_weight :: Vec3f

record MediumSample =
  ms_phase :: PhaseFunction
  ms_p :: Vec3f
  ms_weight :: Vec3f
  ms_exited :: bool

record PhaseSample =
  phs_w :: Vec3f
  phs_weight :: Vec3f

record IntersectionInfo =
  i_p :: Vec3f
  Ns :: Vec3f
  Ng :: Vec3f
  bsdf :: Bsdf
  primitive :: Primitive
  epsilon :: float

datatype BsdfLobes = SpecularLobe | Lobes nat

record SurfaceScatterEvent =
  frame :: TangentFrame
  wo :: Vec3f
  weight :: Vec3f
  requestedLobe :: BsdfLobes
  ev_rest :: nat

record PhotonMapSettings =
  minBounces :: int
  maxBounces :: int
  gatherCount :: nat

text \<open>
  What \<open>handleSurface\<close> receives by reference and may change.
\<close>

record SurfaceIO =
  h_event :: SurfaceScatterEvent
  h_data :: IntersectionTemporary
  h_info :: IntersectionInfo
  h_medium :: "Medium option"
  h_ray :: Ray
  h_throughput :: Vec3f
  h_emission :: Vec3f
  h_wasSpecular :: bool
  h_state :: MediumState
  h_sampler :: sampler

section \<open>The collaborators\<close>

text \<open>
  The scene, the lights, the camera, the media, the BSDFs, the sample stream and the
  shared surface-scattering step are outside the tracer. The model takes them as a record
  of functions and every theorem holds for all of them. A call that draws from the sample
  stream returns the stream's new state; a call that can fail returns \<open>None\<close> for the
  failure; a call that writes through reference parameters returns their new contents.
  The three \<open>init\<close> fields are the contents of the locals \<open>event\<close>, \<open>data\<close> and
  \<open>info\<close> before their first assignment.
\<close>

record env =
  chooseLightAdjoint :: "sampler \<Rightarrow> Primitive \<times> float \<times> sampler"
  extMedium :: "Primitive \<Rightarrow> Medium option"
  samplePosition :: "Primitive \<Rightarrow> sampler \<Rightarrow> PositionSample option \<times> sampler"
  sampleDirection :: "Primitive \<Rightarrow> sampler \<Rightarrow> PositionSample \<Rightarrow> DirectionSample option \<times> sampler"
  mkRay :: "Vec3f \<Rightarrow> Vec3f \<Rightarrow> Ray"
  scatter :: "Ray \<Rightarrow> Vec3f \<Rightarrow> Vec3f \<Rightarrow> float \<Rightarrow> Ray"
  hitpoint :: "Ray \<Rightarrow> Vec3f"
  resetState :: "MediumState"
  initEvent :: SurfaceScatterEvent
  initData :: IntersectionTemporary
  initInfo :: IntersectionInfo
  intersect :: "Ray \<Rightarrow> IntersectionTemporary \<Rightarrow> IntersectionInfo
                  \<Rightarrow> bool \<times> Ray \<times> IntersectionTemporary \<times> IntersectionInfo"
  intersectInfinites :: "Ray \<Rightarrow> IntersectionTemporary \<Rightarrow> IntersectionInfo
                  \<Rightarrow> bool \<times> Ray \<times> IntersectionTemporary \<times> IntersectionInfo"
  sampleDistance :: "Medium \<Rightarrow> sampler \<Rightarrow> Ray \<Rightarrow> MediumState
                  \<Rightarrow> MediumSample option \<times> sampler \<times> MediumState"
  phaseSample :: "PhaseFunction \<Rightarrow> sampler \<Rightarrow> Vec3f \<Rightarrow> PhaseSample option \<times> sampler"
  phaseEval :: "Medium \<Rightarrow> Vec3f \<Rightarrow> Vec3f \<Rightarrow> Vec3f \<Rightarrow> Vec3f"
  transmittance :: "Medium \<Rightarrow> sampler \<Rightarrow> Ray \<Rightarrow> Vec3f \<times> sampler"
  sigmaT :: "Medium \<Rightarrow> Vec3f \<Rightarrow> Vec3f"
  isPureSpecular :: "Bsdf \<Rightarrow> bool"
  bsdfEval :: "Bsdf \<Rightarrow> SurfaceScatterEvent \<Rightarrow> bool \<Rightarrow> Vec3f"
  bsdfSample :: "Bsdf \<Rightarrow> SurfaceScatterEvent \<Rightarrow> bool \<Rightarrow> sampler
                  \<Rightarrow> bool \<times> SurfaceScatterEvent \<times> sampler"
  makeLocalScatterEvent :: "IntersectionTemporary \<Rightarrow> IntersectionInfo \<Rightarrow> Ray \<Rightarrow> SurfaceScatterEvent"
  makeForwardEvent :: "SurfaceScatterEvent \<Rightarrow> SurfaceScatterEvent"
  toGlobal :: "TangentFrame \<Rightarrow> Vec3f \<Rightarrow> Vec3f"
  toLocal :: "TangentFrame \<Rightarrow> Vec3f \<Rightarrow> Vec3f"
  handleSurface :: "int \<Rightarrow> bool \<Rightarrow> bool \<Rightarrow> SurfaceIO \<Rightarrow> bool \<times> SurfaceIO"
  nextBoolean :: "sampler \<Rightarrow> float \<Rightarrow> bool \<times> sampler"
  selectMedium :: "Primitive \<Rightarrow> Medium option \<Rightarrow> bool \<Rightarrow> Medium option"
  isEmissive :: "Primitive \<Rightarrow> bool"
  evalDirect :: "Primitive \<Rightarrow> IntersectionTemporary \<Rightarrow> IntersectionInfo \<Rightarrow> Vec3f"
  camSamplePosition :: "sampler \<Rightarrow> PositionSample option \<times> sampler"
  camSampleDirection :: "sampler \<Rightarrow> PositionSample \<Rightarrow> Vec2u \<Rightarrow> DirectionSample option \<times> sampler"
  camMedium :: "Medium option"

section \<open>PhotonTracer::tracePhoton\<close>

text \<open>The local variables of \<open>tracePhoton\<close> that the path loop carries, and the three ranges.\<close>

record PhotonVars =
  v_bounce :: int
  v_wasSpecular :: bool
  v_hitSurface :: bool
  v_didHit :: bool
  v_medium :: "Medium option"
  v_ray :: Ray
  v_throughput :: Vec3f
  v_emission :: Vec3f
  v_state :: MediumState
  v_data :: IntersectionTemporary
  v_info :: IntersectionInfo
  v_event :: SurfaceScatterEvent
  v_sampler :: sampler
  surfaceRange :: "Photon PhotonRange"
  volumeRange :: "VolumePhoton PhotonRange"
  pathRange :: "PathPhoton PhotonRange"

text \<open>How a block of a loop body ends: with a \<open>break\<close>, or by running on.\<close>

datatype ('a, 'b) flow = Break 'a | Go 'b

text \<open>The block \<open>if (medium) { ... }\<close> of the photon loop.\<close>

definition photonMedium :: "env \<Rightarrow> Medium \<Rightarrow> PhotonVars \<Rightarrow> (PhotonVars, PhotonVars) flow" where
  "photonMedium E m v =
     (case sampleDistance E m (v_sampler v) (v_ray v) (v_state v) of
        (None, smp, st) \<Rightarrow> Break (v\<lparr>v_sampler := smp, v_state := st\<rparr>)
      | (Some mediumSample, smp, st) \<Rightarrow>
          (let v1 = v\<lparr>v_sampler := smp, v_state := st,
                      v_throughput := vmul (v_throughput v) (ms_weight mediumSample),
                      v_hitSurface := ms_exited mediumSample\<rparr>
           in if \<not> v_hitSurface v1 then
                (let v2 = (if \<not> full (volumeRange v1) then
                             v1\<lparr>volumeRange := addPhoton
                                  (\<lambda>p. p\<lparr>pos := ms_p mediumSample, dir := rdir (v_ray v1),
                                         power := v_throughput v1, bounce := v_bounce v1\<rparr>)
                                  (volumeRange v1)\<rparr>
                           else v1);
                     v3 = (if \<not> full (pathRange v2) then
                             v2\<lparr>pathRange := addPhoton
                                  (\<lambda>p. setPathInfo (v_bounce v2) False
                                         (p\<lparr>pp_pos := ms_p mediumSample, pp_power := v_throughput v2\<rparr>))
                                  (pathRange v2)\<rparr>
                           else v2)
                 in case phaseSample E (ms_phase mediumSample) (v_sampler v3) (rdir (v_ray v3)) of
                      (None, smp') \<Rightarrow> Break (v3\<lparr>v_sampler := smp'\<rparr>)
                    | (Some ph, smp') \<Rightarrow>
                        Go (v3\<lparr>v_sampler := smp',
                               v_ray := (scatter E (v_ray v3) (ms_p mediumSample) (phs_w ph) (Finite 0))
                                          \<lparr>primaryRay := False\<rparr>,
                               v_throughput := vmul (v_throughput v3) (phs_weight ph)\<rparr>))
              else Go v1))"

text \<open>The deposits at a surface: the first block \<open>if (hitSurface) { ... }\<close>.\<close>

definition photonSurface :: "env \<Rightarrow> PhotonVars \<Rightarrow> PhotonVars" where
  "photonSurface E v =
     (if v_hitSurface v then
        (let v1 = (if \<not> isPureSpecular E (bsdf (v_info v)) \<and> \<not> full (surfaceRange v) then
                     v\<lparr>surfaceRange := addPhoton
                          (\<lambda>p. p\<lparr>pos := i_p (v_info v), dir := rdir (v_ray v),
                                 power := vscale (v_throughput v)
                                   (fabs (fdiv (dot (Ns (v_info v)) (rdir (v_ray v)))
                                               (dot (Ng (v_info v)) (rdir (v_ray v))))),
                                 bounce := v_bounce v\<rparr>)
                          (surfaceRange v)\<rparr>
                   else v)
         in if \<not> full (pathRange v1) then
              v1\<lparr>pathRange := addPhoton
                   (\<lambda>p. setPathInfo (v_bounce v1) False
                          (p\<lparr>pp_pos := i_p (v_info v1), pp_power := v_throughput v1\<rparr>))
                   (pathRange v1)\<rparr>
            else v1)
      else v)"

text \<open>
  The rest of the body: the surface scattering step, the checks on the throughput and on
  the ray, and the next intersection.
\<close>

definition photonScatter :: "env \<Rightarrow> PhotonMapSettings \<Rightarrow> PhotonVars \<Rightarrow> (PhotonVars, PhotonVars) flow" where
  "photonScatter E cfg v =
     (case (if v_hitSurface v then
              (case handleSurface E (v_bounce v) True False
                      \<lparr>h_event = makeLocalScatterEvent E (v_data v) (v_info v) (v_ray v),
                       h_data = v_data v, h_info = v_info v, h_medium = v_medium v,
                       h_ray = v_ray v, h_throughput = v_throughput v,
                       h_emission = v_emission v, h_wasSpecular = v_wasSpecular v,
                       h_state = v_state v, h_sampler = v_sampler v\<rparr> of
                 (ok, io) \<Rightarrow>
                   (let v' = v\<lparr>v_event := h_event io, v_data := h_data io, v_info := h_info io,
                               v_medium := h_medium io, v_ray := h_ray io,
                               v_throughput := h_throughput io, v_emission := h_emission io,
                               v_wasSpecular := h_wasSpecular io, v_state := h_state io,
                               v_sampler := h_sampler io\<rparr>
                    in if ok then Go v' else Break v'))
            else Go v) of
        Break v1 \<Rightarrow> Break v1
      | Go v1 \<Rightarrow>
          if feq (vmax (v_throughput v1)) (Finite 0) then Break v1
          else if isnan (fadd (vsum (rdir (v_ray v1))) (vsum (rpos (v_ray v1)))) then Break v1
          else if isnan (vsum (v_throughput v1)) then Break v1
          else if v_bounce v1 < maxBounces cfg then
            (case intersect E (v_ray v1) (v_data v1) (v_info v1) of
               (hit, r, d, i) \<Rightarrow> Go (v1\<lparr>v_didHit := hit, v_ray := r, v_data := d, v_info := i\<rparr>))
          else Go v1)"

text \<open>One pass through the body of the \<open>while\<close> loop of \<open>tracePhoton\<close>.\<close>

definition photonBody :: "env \<Rightarrow> PhotonMapSettings \<Rightarrow> PhotonVars \<Rightarrow> (PhotonVars, PhotonVars) flow" where
  "photonBody E cfg v =
     (let v0 = v\<lparr>v_bounce := v_bounce v + 1\<rparr>
      in case (case v_medium v0 of None \<Rightarrow> Go v0 | Some m \<Rightarrow> photonMedium E m v0) of
           Break v1 \<Rightarrow> Break v1
         | Go v1 \<Rightarrow>
             (let v2 = photonSurface E v1
              in if full (volumeRange v2) \<and> full (surfaceRange v2) \<and> full (pathRange v2)
                 then Break v2
                 else photonScatter E cfg v2))"

definition photonCond :: "PhotonMapSettings \<Rightarrow> PhotonVars \<Rightarrow> bool" where
  "photonCond cfg v = ((v_didHit v \<or> v_medium v \<noteq> None) \<and> v_bounce v < maxBounces cfg - 1)"

lemma photonMedium_bounce:
  "photonMedium E m v = Go v' \<or> photonMedium E m v = Break v' \<Longrightarrow> v_bounce v' = v_bounce v"
  by (auto simp: photonMedium_def Let_def split: prod.splits option.splits if_splits)

lemma photonSurface_bounce: "v_bounce (photonSurface E v) = v_bounce v"
  by (simp add: photonSurface_def Let_def)

lemma photonScatter_bounce:
  "photonScatter E cfg v = Go v' \<or> photonScatter E cfg v = Break v' \<Longrightarrow> v_bounce v' = v_bounce v"
  by (auto simp: photonScatter_def Let_def split: prod.splits if_splits)

lemma photonBody_bounce:
  "photonBody E cfg v = Go v' \<or> photonBody E cfg v = Break v' \<Longrightarrow> v_bounce v' = v_bounce v + 1"
  by (auto simp: photonBody_def Let_def photonSurface_bounce
           split: option.splits flow.splits if_splits
           dest!: photonMedium_bounce [OF disjI1] photonMedium_bounce [OF disjI2]
                  photonScatter_bounce [OF disjI1] photonScatter_bounce [OF disjI2])

text \<open>The \<open>while\<close> loop of \<open>tracePhoton\<close>.\<close>

function tracePhotonLoop :: "env \<Rightarrow> PhotonMapSettings \<Rightarrow> PhotonVars \<Rightarrow> PhotonVars" where
  "tracePhotonLoop E cfg v =
     (if photonCond cfg v then
        (case photonBody E cfg v of
           Break v' \<Rightarrow> v'
         | Go v' \<Rightarrow> tracePhotonLoop E cfg v')
      else v)"
  by pat_completeness auto
termination
  by (relation "measure (\<lambda>(E, cfg, v). nat (maxBounces cfg - 1 - v_bounce v))")
     (auto simp: photonCond_def dest!: photonBody_bounce [OF disjI1])

declare tracePhotonLoop.simps [simp del]

text \<open>How often the body of that loop is entered.\<close>

function tracePhotonIters :: "env \<Rightarrow> PhotonMapSettings \<Rightarrow> PhotonVars \<Rightarrow> nat" where
  "tracePhotonIters E cfg v =
     (if photonCond cfg v then
        (case photonBody E cfg v of
           Break v' \<Rightarrow> 1
         | Go v' \<Rightarrow> 1 + tracePhotonIters E cfg v')
      else 0)"
  by pat_completeness auto
termination
  by (relation "measure (\<lambda>(E, cfg, v). nat (maxBounces cfg - 1 - v_bounce v))")
     (auto simp: photonCond_def dest!: photonBody_bounce [OF disjI1])

declare tracePhotonIters.simps [simp del]

text \<open>
  \<open>tracePhoton\<close> up to the loop: the light and the emission sample (either may fail, and
  the function returns), the first path photon, the first intersection.
\<close>

definition photonStart ::
  "env \<Rightarrow> Photon PhotonRange \<Rightarrow> VolumePhoton PhotonRange \<Rightarrow> PathPhoton PhotonRange \<Rightarrow> sampler
     \<Rightarrow> PhotonVars option \<times> sampler" where
  "photonStart E surfaceRange0 volumeRange0 pathRange0 smp0 =
     (case chooseLightAdjoint E smp0 of
        (light, lightPdf, smp1) \<Rightarrow>
          (case samplePosition E light smp1 of
             (None, smp2) \<Rightarrow> (None, smp2)
           | (Some point, smp2) \<Rightarrow>
               (case sampleDirection E light smp2 point of
                  (None, smp3) \<Rightarrow> (None, smp3)
                | (Some direction, smp3) \<Rightarrow>
                    (let throughput = vdivs (vmul (ps_weight point) (ds_weight direction)) lightPdf;
                         pathRange1 =
                           (if \<not> full pathRange0 then
                              addPhoton (\<lambda>p. setPathInfo 0 False
                                                (p\<lparr>pp_pos := ps_p point, pp_power := throughput\<rparr>))
                                        pathRange0
                            else pathRange0)
                     in case intersect E (mkRay E (ps_p point) (ds_d direction))
                                         (initData E) (initInfo E) of
                          (hit, r, d, i) \<Rightarrow>
                            (Some \<lparr>v_bounce = 0, v_wasSpecular = True, v_hitSurface = True,
                                   v_didHit = hit, v_medium = extMedium E light, v_ray = r,
                                   v_throughput = throughput, v_emission = vconst (Finite 0),
                                   v_state = resetState E, v_data = d, v_info = i,
                                   v_event = initEvent E, v_sampler = smp3,
                                   surfaceRange = surfaceRange0, volumeRange = volumeRange0,
                                   pathRange = pathRange1\<rparr>, smp3)))))"

text \<open>
  \<open>tracePhoton\<close>: its effect on the three ranges and on the sample stream.
\<close>

definition tracePhoton ::
  "env \<Rightarrow> PhotonMapSettings \<Rightarrow> Photon PhotonRange \<Rightarrow> VolumePhoton PhotonRange
     \<Rightarrow> PathPhoton PhotonRange \<Rightarrow> sampler
     \<Rightarrow> Photon PhotonRange \<times> VolumePhoton PhotonRange \<times> PathPhoton PhotonRange \<times> sampler" where
  "tracePhoton E cfg surfaceRange0 volumeRange0 pathRange0 smp0 =
     (case photonStart E surfaceRange0 volumeRange0 pathRange0 smp0 of
        (None, smp) \<Rightarrow> (surfaceRange0, volumeRange0, pathRange0, smp)
      | (Some v0, smp) \<Rightarrow>
          (let v = tracePhotonLoop E cfg v0
           in (surfaceRange v, volumeRange v, pathRange v, v_sampler v)))"

section \<open>PhotonTracer::traceSample\<close>

text \<open>
  The photon indices are outside the tracer too. Each is modelled by what its query
  hands to the tracer: the surface tree by the photons and squared distances that
  \<open>nearestNeighbours\<close> writes to the two query buffers, in buffer order (their number is
  the returned count); the volume tree and the beam hierarchy by the arguments of the
  successive calls of the visitor. \<open>pathPhotons\<close> is a pointer into the path photon array.
\<close>

type_synonym SurfaceTree = "Vec3f \<Rightarrow> nat \<Rightarrow> float \<Rightarrow> (Photon \<times> float) list"
type_synonym VolumeTree = "Vec3f \<Rightarrow> Vec3f \<Rightarrow> float \<Rightarrow> (VolumePhoton \<times> float \<times> float) list"
type_synonym Bounds = "nat \<Rightarrow> nat \<Rightarrow> float"
type_synonym BinaryBvh = "Ray \<Rightarrow> (Ray \<times> nat \<times> float \<times> Bounds) list"

record GatherArgs =
  pixel :: Vec2u
  surfaceTree :: SurfaceTree
  mediumTree :: "VolumeTree option"
  beamBvh :: "BinaryBvh option"
  pathPhotons :: "nat \<Rightarrow> PathPhoton"
  gatherRadius :: float
  volumeGatherRadius :: float

record SampleVars =
  s_bounce :: int
  s_didHit :: bool
  s_medium :: "Medium option"
  s_ray :: Ray
  s_throughput :: Vec3f
  s_result :: Vec3f
  s_data :: IntersectionTemporary
  s_info :: IntersectionInfo
  s_sampler :: sampler

text \<open>
  Each of the three estimators stores the length of the combined path in a local
  \<open>int fullPathBounce\<close>, a 32-bit integer. \<open>int32\<close> says that a number fits into one;
  \<open>toInt32\<close> is the value the local holds for a sum that may not fit: the sum reduced
  modulo \<open>2^32\<close> into the two's complement range (what unsigned arithmetic on a stored
  \<open>uint32\<close> count followed by the conversion to \<open>int\<close> gives, and what the wrapping
  signed addition gives).
\<close>

definition int32 :: "int \<Rightarrow> bool" where
  "int32 n = (- 2147483648 \<le> n \<and> n < 2147483648)"

definition toInt32 :: "int \<Rightarrow> int" where
  "toInt32 n = (n + 2147483648) mod 4294967296 - 2147483648"

text \<open>The test on the length of the combined path, as each of the three estimators writes it.\<close>

definition bounceRejected :: "PhotonMapSettings \<Rightarrow> int \<Rightarrow> bool" where
  "bounceRejected cfg fullPathBounce =
     (fullPathBounce < minBounces cfg \<or> fullPathBounce \<ge> maxBounces cfg)"

text \<open>
  The visitor of \<open>mediumTree->beamQuery\<close> (the point kernel): \<open>b\<close> is the camera path's
  bounce counter, the pair is the running estimate and the sample stream.
\<close>

definition volumeVisit ::
  "env \<Rightarrow> PhotonMapSettings \<Rightarrow> Medium \<Rightarrow> Ray \<Rightarrow> int \<Rightarrow> VolumePhoton \<times> float \<times> float
     \<Rightarrow> Vec3f \<times> sampler \<Rightarrow> Vec3f \<times> sampler" where
  "volumeVisit E cfg medium ray b visit acc =
     (case visit of (p, t, distSq) \<Rightarrow>
      case acc of (beamEstimate, smp) \<Rightarrow>
        (let fullPathBounce = toInt32 (b + bounce p - 1)
         in if bounceRejected cfg fullPathBounce then (beamEstimate, smp)
            else
              (let mediumQuery = ray\<lparr>farT := t\<rparr>
               in case transmittance E medium smp mediumQuery of
                    (tr, smp') \<Rightarrow>
                      (vadd beamEstimate
                         (vmul (vmul (svmul (fdiv (fmul (fmul (Finite 3) INV_PI)
                                                        (sqr (fsub (Finite 1) (fdiv distSq (radiusSq p)))))
                                                  (radiusSq p))
                                            (phaseEval E medium (pos p) (rdir ray) (vneg (dir p))))
                                     tr)
                               (power p)),
                       smp'))))"

text \<open>
  The visitor of \<open>beamBvh->trace\<close> (the beam estimator): \<open>p0\<close> and \<open>p1\<close> are the two
  path photons at \<open>photonIndex\<close>.
\<close>

definition beamVisit ::
  "env \<Rightarrow> PhotonMapSettings \<Rightarrow> Medium \<Rightarrow> (nat \<Rightarrow> PathPhoton) \<Rightarrow> float \<Rightarrow> int
     \<Rightarrow> Ray \<times> nat \<times> float \<times> Bounds \<Rightarrow> Vec3f \<times> sampler \<Rightarrow> Vec3f \<times> sampler" where
  "beamVisit E cfg medium photons radius b visit acc =
     (case visit of (ray, photonIndex, tMin, bounds) \<Rightarrow>
      case acc of (beamEstimate, smp) \<Rightarrow>
        (let p0 = photons (photonIndex + 0);
             p1 = photons (photonIndex + 1);
             fullPathBounce = toInt32 (b + pp_bounce p0)
         in if bounceRejected cfg fullPathBounce then (beamEstimate, smp)
            else
              (let u = cross (rdir ray) (pp_dir p0);
                   invSinTheta = fdiv (Finite 1) (vlength u);
                   l = vsub (pp_pos p0) (rpos ray);
                   d = fmul invSinTheta (dot u l)
               in if fgt (fabs d) radius then (beamEstimate, smp)
                  else
                    (let n = cross (pp_dir p0) u;
                         t = fdiv (dot n l) (dot n (rdir ray));
                         majorAxis = maxDim (vabs (pp_dir p0));
                         intervalMin = fmin (bounds majorAxis 0) (bounds majorAxis 1);
                         intervalMax = fmax (bounds majorAxis 2) (bounds majorAxis 3);
                         hitPoint = vadd (rpos ray) (vscale (rdir ray) t)
                     in if flt (vnth hitPoint majorAxis) intervalMin
                           \<or> fgt (vnth hitPoint majorAxis) intervalMax
                        then (beamEstimate, smp)
                        else
                          (let s = dot (pp_dir p0) (vsub hitPoint (pp_pos p0))
                           in if fge t (nearT ray) \<and> fle t (farT ray)
                                 \<and> fge s (Finite 0) \<and> fle s (pp_length p0)
                              then
                                (let mediumQuery = ray\<lparr>farT := t\<rparr>
                                 in case transmittance E medium smp mediumQuery of
                                      (tr, smp') \<Rightarrow>
                                        (vadd beamEstimate
                                           (vmul (vmul (vmul (vdivs (vscale (sigmaT E medium hitPoint) invSinTheta)
                                                                    (fmul (Finite 2) radius))
                                                             (phaseEval E medium hitPoint (rdir ray)
                                                                        (vneg (pp_dir p0))))
                                                       tr)
                                                 (pp_power p1)),
                                         smp'))
                              else (beamEstimate, smp))))))"

text \<open>The block \<open>if (medium) { ... }\<close> of the camera loop.\<close>

definition sampleMedium ::
  "env \<Rightarrow> PhotonMapSettings \<Rightarrow> GatherArgs \<Rightarrow> Medium \<Rightarrow> SampleVars \<Rightarrow> SampleVars" where
  "sampleMedium E cfg args medium v =
     (let v1 =
        (case mediumTree args of
           Some tree \<Rightarrow>
             (case fold (volumeVisit E cfg medium (s_ray v) (s_bounce v))
                        (tree (rpos (s_ray v)) (rdir (s_ray v)) (farT (s_ray v)))
                        (vconst (Finite 0), s_sampler v) of
                (beamEstimate, smp) \<Rightarrow>
                  v\<lparr>s_result := vadd (s_result v) (vmul (s_throughput v) beamEstimate),
                    s_sampler := smp\<rparr>)
         | None \<Rightarrow>
             (case beamBvh args of
                Some bvh \<Rightarrow>
                  (case fold (beamVisit E cfg medium (pathPhotons args) (volumeGatherRadius args)
                                        (s_bounce v))
                             (bvh (s_ray v))
                             (vconst (Finite 0), s_sampler v) of
                     (beamEstimate, smp) \<Rightarrow>
                       v\<lparr>s_result := vadd (s_result v) (vmul (s_throughput v) beamEstimate),
                         s_sampler := smp\<rparr>)
              | None \<Rightarrow> v))
      in case transmittance E medium (s_sampler v1) (s_ray v1) of
           (tr, smp) \<Rightarrow> v1\<lparr>s_throughput := vmul (s_throughput v1) tr, s_sampler := smp\<rparr>)"

text \<open>
  The interaction with the surface that was hit: the transparency is evaluated and the
  sample stream decides between passing straight through and a forced sample of the
  specular lobe. The result is the new direction \<open>wo\<close>, the new throughput and the sample
  stream; a failed sample is the \<open>break\<close>.
\<close>

definition sampleInteract ::
  "env \<Rightarrow> SampleVars \<Rightarrow> (sampler, Vec3f \<times> Vec3f \<times> sampler) flow" where
  "sampleInteract E v =
     (let event = makeLocalScatterEvent E (s_data v) (s_info v) (s_ray v);
          transparency = bsdfEval E (bsdf (s_info v)) (makeForwardEvent E event) False;
          transparencyScalar = vavg transparency
      in case nextBoolean E (s_sampler v) transparencyScalar of
           (passThrough, smp) \<Rightarrow>
             if passThrough then
               Go (rdir (s_ray v),
                   vmul (s_throughput v) (vdivs transparency transparencyScalar), smp)
             else
               (case bsdfSample E (bsdf (s_info v)) (event\<lparr>requestedLobe := SpecularLobe\<rparr>)
                       False smp of
                  (ok, event', smp') \<Rightarrow>
                    if \<not> ok then Break smp'
                    else Go (toGlobal E (frame event') (wo event'),
                             vmul (s_throughput v) (weight event'), smp')))"

text \<open>The body of the camera loop from the surface interaction on.\<close>

definition sampleSurface ::
  "env \<Rightarrow> PhotonMapSettings \<Rightarrow> SampleVars \<Rightarrow> (SampleVars, SampleVars) flow" where
  "sampleSurface E cfg v =
     (case sampleInteract E v of
        Break smp \<Rightarrow> Break (v\<lparr>s_sampler := smp\<rparr>)
      | Go (wo', throughput', smp) \<Rightarrow>
          (let geometricBackside = flt (dot wo' (Ng (s_info v))) (Finite 0);
               v1 = v\<lparr>s_sampler := smp, s_throughput := throughput',
                      s_medium := selectMedium E (primitive (s_info v)) (s_medium v) geometricBackside,
                      s_ray := scatter E (s_ray v) (hitpoint E (s_ray v)) wo' (epsilon (s_info v))\<rparr>
           in if isnan (fadd (vsum (rdir (s_ray v1))) (vsum (rpos (s_ray v1)))) then Break v1
              else if isnan (vsum (s_throughput v1)) then Break v1
              else if s_bounce v1 < maxBounces cfg then
                (case intersect E (s_ray v1) (s_data v1) (s_info v1) of
                   (hit, r, d, i) \<Rightarrow> Go (v1\<lparr>s_didHit := hit, s_ray := r, s_data := d, s_info := i\<rparr>))
              else Go v1))"

text \<open>One pass through the body of the \<open>while\<close> loop of \<open>traceSample\<close>.\<close>

definition sampleBody ::
  "env \<Rightarrow> PhotonMapSettings \<Rightarrow> GatherArgs \<Rightarrow> SampleVars \<Rightarrow> (SampleVars, SampleVars) flow" where
  "sampleBody E cfg args v =
     (let v0 = v\<lparr>s_bounce := s_bounce v + 1\<rparr>;
          v1 = (case s_medium v0 of None \<Rightarrow> v0 | Some m \<Rightarrow> sampleMedium E cfg args m v0)
      in if \<not> s_didHit v1 then Break v1 else sampleSurface E cfg v1)"

definition sampleCond :: "PhotonMapSettings \<Rightarrow> SampleVars \<Rightarrow> bool" where
  "sampleCond cfg v = ((s_medium v \<noteq> None \<or> s_didHit v) \<and> s_bounce v < maxBounces cfg)"

lemma sampleMedium_bounce: "s_bounce (sampleMedium E cfg args m v) = s_bounce v"
  by (simp add: sampleMedium_def Let_def split: option.splits prod.splits)

lemma sampleSurface_bounce:
  "sampleSurface E cfg v = Go v' \<or> sampleSurface E cfg v = Break v' \<Longrightarrow> s_bounce v' = s_bounce v"
  by (auto simp: sampleSurface_def Let_def split: flow.splits prod.splits if_splits)

lemma sampleBody_bounce:
  "sampleBody E cfg args v = Go v' \<or> sampleBody E cfg args v = Break v'
     \<Longrightarrow> s_bounce v' = s_bounce v + 1"
  by (auto simp: sampleBody_def Let_def sampleMedium_bounce split: option.splits if_splits
           dest!: sampleSurface_bounce [OF disjI1] sampleSurface_bounce [OF disjI2])

text \<open>The \<open>while\<close> loop of \<open>traceSample\<close>, and how often its body is entered.\<close>

function traceSampleLoop ::
  "env \<Rightarrow> PhotonMapSettings \<Rightarrow> GatherArgs \<Rightarrow> SampleVars \<Rightarrow> SampleVars" where
  "traceSampleLoop E cfg args v =
     (if sampleCond cfg v then
        (case sampleBody E cfg args v of
           Break v' \<Rightarrow> v'
         | Go v' \<Rightarrow> traceSampleLoop E cfg args v')
      else v)"
  by pat_completeness auto
termination
  by (relation "measure (\<lambda>(E, cfg, args, v). nat (maxBounces cfg - s_bounce v))")
     (auto simp: sampleCond_def dest!: sampleBody_bounce [OF disjI1])

declare traceSampleLoop.simps [simp del]

function traceSampleIters ::
  "env \<Rightarrow> PhotonMapSettings \<Rightarrow> GatherArgs \<Rightarrow> SampleVars \<Rightarrow> nat" where
  "traceSampleIters E cfg args v =
     (if sampleCond cfg v then
        (case sampleBody E cfg args v of
           Break v' \<Rightarrow> 1
         | Go v' \<Rightarrow> 1 + traceSampleIters E cfg args v')
      else 0)"
  by pat_completeness auto
termination
  by (relation "measure (\<lambda>(E, cfg, args, v). nat (maxBounces cfg - s_bounce v))")
     (auto simp: sampleCond_def dest!: sampleBody_bounce [OF disjI1])

declare traceSampleIters.simps [simp del]

text \<open>
  The body of the \<open>for\<close> loop over the photons that the surface query returned: \<open>b\<close> is
  the camera path's bounce counter, the pair is the scatter event (its \<open>wo\<close> is overwritten
  for each accepted photon) and the running estimate.
\<close>

definition surfaceVisit ::
  "env \<Rightarrow> PhotonMapSettings \<Rightarrow> Bsdf \<Rightarrow> int \<Rightarrow> Photon
     \<Rightarrow> SurfaceScatterEvent \<times> Vec3f \<Rightarrow> SurfaceScatterEvent \<times> Vec3f" where
  "surfaceVisit E cfg bs b p acc =
     (case acc of (event, surfaceEstimate) \<Rightarrow>
        (let fullPathBounce = toInt32 (b + bounce p - 1)
         in if bounceRejected cfg fullPathBounce then (event, surfaceEstimate)
            else
              (let event' = event\<lparr>wo := toLocal E (frame event) (vneg (dir p))\<rparr>
               in (event',
                   vadd surfaceEstimate
                        (vdivs (vmul (power p) (bsdfEval E bs event' False))
                               (fabs (vz (wo event'))))))))"

text \<open>The squared radius of the surface estimate.\<close>

definition gatherRadiusSq :: "PhotonMapSettings \<Rightarrow> GatherArgs \<Rightarrow> (Photon \<times> float) list \<Rightarrow> float" where
  "gatherRadiusSq cfg args query =
     (if int (length query) = int (gatherCount cfg) then snd (hd query)
      else fmul (gatherRadius args) (gatherRadius args))"

text \<open>
  \<open>traceSample\<close> after the loop, where the last intersection was a hit: the result with
  the emission of the surface added, and the sum over the photons of the query.
\<close>

definition gatherDirect :: "env \<Rightarrow> PhotonMapSettings \<Rightarrow> SampleVars \<Rightarrow> Vec3f" where
  "gatherDirect E cfg v =
     (if isEmissive E (primitive (s_info v)) \<and> s_bounce v > minBounces cfg then
        vadd (s_result v)
             (vmul (s_throughput v) (evalDirect E (primitive (s_info v)) (s_data v) (s_info v)))
      else s_result v)"

definition gatherEstimate ::
  "env \<Rightarrow> PhotonMapSettings \<Rightarrow> SampleVars \<Rightarrow> (Photon \<times> float) list \<Rightarrow> Vec3f" where
  "gatherEstimate E cfg v query =
     snd (fold (surfaceVisit E cfg (bsdf (s_info v)) (s_bounce v)) (map fst query)
               (makeLocalScatterEvent E (s_data v) (s_info v) (s_ray v), vconst (Finite 0)))"

text \<open>\<open>traceSample\<close> after the loop: the direct terms and the surface estimate.\<close>

definition sampleGather :: "env \<Rightarrow> PhotonMapSettings \<Rightarrow> GatherArgs \<Rightarrow> SampleVars \<Rightarrow> Vec3f" where
  "sampleGather E cfg args v =
     (if \<not> s_didHit v then
        (if s_medium v = None \<and> s_bounce v > minBounces cfg then
           (case intersectInfinites E (s_ray v) (s_data v) (s_info v) of
              (hit, r, d, i) \<Rightarrow>
                if hit then vadd (s_result v) (vmul (s_throughput v) (evalDirect E (primitive i) d i))
                else s_result v)
         else s_result v)
      else
        (let result1 = gatherDirect E cfg v;
             query = surfaceTree args (hitpoint E (s_ray v)) (gatherCount cfg) (gatherRadius args)
         in if int (length query) = 0 then result1
            else
              (let surfaceEstimate = gatherEstimate E cfg v query;
                   radiusSq = gatherRadiusSq cfg args query
               in vadd result1
                       (vscale (vmul (s_throughput v) surfaceEstimate) (fdiv INV_PI radiusSq)))))"

text \<open>\<open>traceSample\<close> up to the loop: the camera sample (either part may fail).\<close>

definition sampleStart :: "env \<Rightarrow> GatherArgs \<Rightarrow> sampler \<Rightarrow> SampleVars option" where
  "sampleStart E args smp0 =
     (case camSamplePosition E smp0 of
        (None, smp1) \<Rightarrow> None
      | (Some point, smp1) \<Rightarrow>
          (case camSampleDirection E smp1 point (pixel args) of
             (None, smp2) \<Rightarrow> None
           | (Some direction, smp2) \<Rightarrow>
               (case intersect E ((mkRay E (ps_p point) (ds_d direction))\<lparr>primaryRay := True\<rparr>)
                              (initData E) (initInfo E) of
                  (hit, r, d, i) \<Rightarrow>
                    Some \<lparr>s_bounce = 0, s_didHit = hit, s_medium = camMedium E, s_ray = r,
                          s_throughput = vmul (ps_weight point) (ds_weight direction),
                          s_result = vconst (Finite 0), s_data = d, s_info = i,
                          s_sampler = smp2\<rparr>)))"

text \<open>\<open>traceSample\<close>: the radiance it returns.\<close>

definition traceSample :: "env \<Rightarrow> PhotonMapSettings \<Rightarrow> GatherArgs \<Rightarrow> sampler \<Rightarrow> Vec3f" where
  "traceSample E cfg args smp0 =
     (case sampleStart E args smp0 of
        None \<Rightarrow> vconst (Finite 0)
      | Some v0 \<Rightarrow> sampleGather E cfg args (traceSampleLoop E cfg args v0))"

section \<open>Reading the ranges and the loop\<close>

text \<open>The variables with which a block ends, whichever way it ends.\<close>

fun flowState :: "('a, 'a) flow \<Rightarrow> 'a" where
  "flowState (Break a) = a"
| "flowState (Go a) = a"

text \<open>
  A range \<open>r\<close> has grown into \<open>r'\<close>: the capacity is the same, the count has not gone
  down and has not passed the capacity if it was within it, a full range is untouched,
  and the photons deposited before are still there. \<open>newPhotons r r'\<close> are the photons
  deposited in between.
\<close>

definition grows :: "'a PhotonRange \<Rightarrow> 'a PhotonRange \<Rightarrow> bool" where
  "grows r r' = (capacity r' = capacity r \<and> count r \<le> count r'
                 \<and> (count r \<le> capacity r \<longrightarrow> count r' \<le> capacity r')
                 \<and> (full r \<longrightarrow> r' = r)
                 \<and> take (count r) (storage r') = take (count r) (storage r))"

definition newPhotons :: "'a PhotonRange \<Rightarrow> 'a PhotonRange \<Rightarrow> 'a list" where
  "newPhotons r r' = drop (count r) (deposited r')"

text \<open>
  What one pass of the photon loop does to the ranges: they grow, every photon deposited
  in the pass carries the incremented bounce counter, every path photon is unflagged, and
  a purely specular surface leaves the surface range alone.
\<close>

definition passOK :: "env \<Rightarrow> PhotonVars \<Rightarrow> PhotonVars \<Rightarrow> bool" where
  "passOK E v v' =
     (grows (surfaceRange v) (surfaceRange v')
      \<and> grows (volumeRange v) (volumeRange v')
      \<and> grows (pathRange v) (pathRange v')
      \<and> list_all (\<lambda>p. bounce p = v_bounce v + 1) (newPhotons (surfaceRange v) (surfaceRange v'))
      \<and> list_all (\<lambda>p. bounce p = v_bounce v + 1) (newPhotons (volumeRange v) (volumeRange v'))
      \<and> list_all (\<lambda>p. pp_bounce p = v_bounce v + 1 \<and> \<not> pp_flag p)
           (newPhotons (pathRange v) (pathRange v'))
      \<and> (isPureSpecular E (bsdf (v_info v)) \<longrightarrow> surfaceRange v' = surfaceRange v))"

text \<open>The same for a run of passes, with the bounce indices between the bounds.\<close>

definition runOK :: "env \<Rightarrow> PhotonMapSettings \<Rightarrow> PhotonVars \<Rightarrow> PhotonVars \<Rightarrow> bool" where
  "runOK E cfg v v' =
     (grows (surfaceRange v) (surfaceRange v')
      \<and> grows (volumeRange v) (volumeRange v')
      \<and> grows (pathRange v) (pathRange v')
      \<and> list_all (\<lambda>p. v_bounce v < bounce p \<and> bounce p < maxBounces cfg)
           (newPhotons (surfaceRange v) (surfaceRange v'))
      \<and> list_all (\<lambda>p. v_bounce v < bounce p \<and> bounce p < maxBounces cfg)
           (newPhotons (volumeRange v) (volumeRange v'))
      \<and> list_all (\<lambda>p. v_bounce v < pp_bounce p \<and> pp_bounce p < maxBounces cfg \<and> \<not> pp_flag p)
           (newPhotons (pathRange v) (pathRange v'))
      \<and> ((\<forall>b. isPureSpecular E b) \<longrightarrow> surfaceRange v' = surfaceRange v))"

text \<open>
  The variables of \<open>tracePhoton\<close> after \<open>k\<close> complete passes of the loop, if the loop
  gets that far.
\<close>

primrec photonAfter :: "env \<Rightarrow> PhotonMapSettings \<Rightarrow> nat \<Rightarrow> PhotonVars \<Rightarrow> PhotonVars option" where
  "photonAfter E cfg 0 v = Some v"
| "photonAfter E cfg (Suc k) v =
     (if photonCond cfg v then
        (case photonBody E cfg v of
           Break v' \<Rightarrow> None
         | Go v' \<Rightarrow> photonAfter E cfg k v')
      else None)"

section \<open>Reading the beam estimator\<close>

text \<open>
  The geometry of one beam segment against the camera ray, written over the fields of
  its first path photon alone: \<open>x0\<close>, \<open>d0\<close>, \<open>len0\<close> and \<open>bounce0\<close> stand for the position,
  the direction, the length and the bounce index of \<open>p0\<close>. None of these functions is
  given a path photon, so none can read a power or the second photon of the pair.

  \<open>beamInvSin\<close> is one over the sine of the angle between the ray and the beam;
  \<open>beamSeparation\<close> is the signed distance between the two lines; \<open>beamRayT\<close> is the ray
  parameter of the point of the ray nearest to the beam, \<open>beamHitPoint\<close> that point, and
  \<open>beamSegT\<close> the distance of its projection along the beam from \<open>x0\<close>; \<open>beamInSlab\<close> is
  the test of that point against the extent of the candidate along the major axis of \<open>d0\<close>.
\<close>

definition beamInvSin :: "Ray \<Rightarrow> Vec3f \<Rightarrow> float" where
  "beamInvSin ray d0 = fdiv (Finite 1) (vlength (cross (rdir ray) d0))"

definition beamSeparation :: "Ray \<Rightarrow> Vec3f \<Rightarrow> Vec3f \<Rightarrow> float" where
  "beamSeparation ray x0 d0 =
     fmul (beamInvSin ray d0) (dot (cross (rdir ray) d0) (vsub x0 (rpos ray)))"

definition beamRayT :: "Ray \<Rightarrow> Vec3f \<Rightarrow> Vec3f \<Rightarrow> float" where
  "beamRayT ray x0 d0 =
     fdiv (dot (cross d0 (cross (rdir ray) d0)) (vsub x0 (rpos ray)))
          (dot (cross d0 (cross (rdir ray) d0)) (rdir ray))"

definition beamHitPoint :: "Ray \<Rightarrow> Vec3f \<Rightarrow> Vec3f \<Rightarrow> Vec3f" where
  "beamHitPoint ray x0 d0 = vadd (rpos ray) (vscale (rdir ray) (beamRayT ray x0 d0))"

definition beamSegT :: "Ray \<Rightarrow> Vec3f \<Rightarrow> Vec3f \<Rightarrow> float" where
  "beamSegT ray x0 d0 = dot d0 (vsub (beamHitPoint ray x0 d0) x0)"

definition beamInSlab :: "Bounds \<Rightarrow> Ray \<Rightarrow> Vec3f \<Rightarrow> Vec3f \<Rightarrow> bool" where
  "beamInSlab bounds ray x0 d0 =
     (\<not> flt (vnth (beamHitPoint ray x0 d0) (maxDim (vabs d0)))
            (fmin (bounds (maxDim (vabs d0)) 0) (bounds (maxDim (vabs d0)) 1))
      \<and> \<not> fgt (vnth (beamHitPoint ray x0 d0) (maxDim (vabs d0)))
              (fmax (bounds (maxDim (vabs d0)) 2) (bounds (maxDim (vabs d0)) 3)))"

text \<open>
  A segment is accepted when its path length passes the test of the settings, the two
  lines are no farther apart than the gather radius, the nearest point is inside the
  extent of the candidate, inside the interval of the ray and over the segment.
\<close>

definition beamAccepted ::
  "PhotonMapSettings \<Rightarrow> float \<Rightarrow> int \<Rightarrow> Ray \<Rightarrow> Bounds \<Rightarrow> Vec3f \<Rightarrow> Vec3f \<Rightarrow> float \<Rightarrow> int \<Rightarrow> bool" where
  "beamAccepted cfg radius b ray bounds x0 d0 len0 bounce0 =
     (\<not> bounceRejected cfg (toInt32 (b + bounce0))
      \<and> \<not> fgt (fabs (beamSeparation ray x0 d0)) radius
      \<and> beamInSlab bounds ray x0 d0
      \<and> fge (beamRayT ray x0 d0) (nearT ray) \<and> fle (beamRayT ray x0 d0) (farT ray)
      \<and> fge (beamSegT ray x0 d0) (Finite 0) \<and> fle (beamSegT ray x0 d0) len0)"

text \<open>
  The weight of an accepted segment: the extinction at the nearest point times
  \<open>beamInvSin\<close> over twice the gather radius, times the phase function between the ray
  and the reversed beam direction, times the transmittance along the ray up to that
  point. \<open>beamStream\<close> is the sample stream after the transmittance has been evaluated.
\<close>

definition beamWeight :: "env \<Rightarrow> Medium \<Rightarrow> float \<Rightarrow> Ray \<Rightarrow> sampler \<Rightarrow> Vec3f \<Rightarrow> Vec3f \<Rightarrow> Vec3f" where
  "beamWeight E medium radius ray smp x0 d0 =
     vmul (vmul (vdivs (vscale (sigmaT E medium (beamHitPoint ray x0 d0)) (beamInvSin ray d0))
                       (fmul (Finite 2) radius))
                (phaseEval E medium (beamHitPoint ray x0 d0) (rdir ray) (vneg d0)))
          (fst (transmittance E medium smp (ray\<lparr>farT := beamRayT ray x0 d0\<rparr>)))"

definition beamStream :: "env \<Rightarrow> Medium \<Rightarrow> Ray \<Rightarrow> sampler \<Rightarrow> Vec3f \<Rightarrow> Vec3f \<Rightarrow> sampler" where
  "beamStream E medium ray smp x0 d0 =
     snd (transmittance E medium smp (ray\<lparr>farT := beamRayT ray x0 d0\<rparr>))"

section \<open>A small scene\<close>

text \<open>
  A concrete scene on which the theorems below are instantiated: every ray hits a plane one
  unit ahead, the light with handle 0 sits in vacuum and every other light in medium 0,
  where every distance sample is an interior scattering point; the shading normal of the
  plane is tilted against its geometric normal; BSDF 0 is half transparent, BSDF 1 is
  purely specular, BSDF 2 is neither; the sample stream answers \<open>nextBoolean\<close> with true
  exactly when the probability exceeds one quarter.
\<close>

definition vec3 :: "real \<Rightarrow> real \<Rightarrow> real \<Rightarrow> Vec3f" where
  "vec3 a b c = Vec3f (Finite a) (Finite b) (Finite c)"

definition demoInfo :: "Bsdf \<Rightarrow> IntersectionInfo" where
  "demoInfo b = \<lparr>i_p = vec3 0 0 1, Ns = vec3 0 (3 / 5) (- 4 / 5), Ng = vec3 0 0 1, bsdf = b,
                 primitive = 0, epsilon = Finite 0\<rparr>"

definition demoEvent :: SurfaceScatterEvent where
  "demoEvent = \<lparr>frame = 0, wo = vec3 0 0 1, weight = vec3 1 1 1, requestedLobe = Lobes 0,
                ev_rest = 0\<rparr>"

definition demoRay :: Ray where
  "demoRay = \<lparr>rpos = vec3 0 0 0, rdir = vec3 1 0 0, nearT = Finite 0, farT = Finite 10,
              primaryRay = True\<rparr>"

definition demoEnv :: "Bsdf \<Rightarrow> env" where
  "demoEnv b =
     \<lparr>chooseLightAdjoint = (\<lambda>s. (s, Finite 1, s)),
      extMedium = (\<lambda>l. if l = 0 then None else Some 0),
      samplePosition = (\<lambda>l s. (Some \<lparr>ps_p = vec3 0 0 0, ps_weight = vec3 1 1 1\<rparr>, s)),
      sampleDirection = (\<lambda>l s pt. (Some \<lparr>ds_d = vec3 0 0 1, ds_weight = vec3 2 2 2\<rparr>, s)),
      mkRay = (\<lambda>p d. \<lparr>rpos = p, rdir = d, nearT = Finite 0, farT = Infinite False,
                       primaryRay = False\<rparr>),
      scatter = (\<lambda>r p w eps. r\<lparr>rpos := p, rdir := w, nearT := eps, farT := Infinite False\<rparr>),
      hitpoint = (\<lambda>r. vadd (rpos r) (vscale (rdir r) (farT r))),
      resetState = 0,
      initEvent = demoEvent,
      initData = 0,
      initInfo = demoInfo b,
      intersect = (\<lambda>r d i. (True, r\<lparr>farT := Finite 1\<rparr>, d, demoInfo b)),
      intersectInfinites = (\<lambda>r d i. (False, r, d, i)),
      sampleDistance = (\<lambda>m s r st.
         (Some \<lparr>ms_phase = 0, ms_p = vec3 0 0 (1 / 2), ms_weight = vec3 1 1 1, ms_exited = False\<rparr>,
          s, st)),
      phaseSample = (\<lambda>ph s w. (Some \<lparr>phs_w = w, phs_weight = vec3 1 1 1\<rparr>, s)),
      phaseEval = (\<lambda>m p wi wo'. vec3 1 1 1),
      transmittance = (\<lambda>m s r. (vec3 1 1 1, s)),
      sigmaT = (\<lambda>m p. vec3 1 1 1),
      isPureSpecular = (\<lambda>bs. bs = 1),
      bsdfEval = (\<lambda>bs ev adj. if bs = 0 then vec3 (1 / 4) (1 / 2) (3 / 4) else vec3 0 0 0),
      bsdfSample = (\<lambda>bs ev adj s. (bs = 1, ev\<lparr>wo := vec3 0 0 (- 1), weight := vec3 3 3 3\<rparr>, s + 1)),
      makeLocalScatterEvent = (\<lambda>d i r. demoEvent),
      makeForwardEvent = (\<lambda>ev. ev),
      toGlobal = (\<lambda>f w. w),
      toLocal = (\<lambda>f w. w),
      handleSurface = (\<lambda>bn adj ls io. (True, io)),
      nextBoolean = (\<lambda>s pr. (flt (Finite (1 / 4)) pr, s)),
      selectMedium = (\<lambda>pr m back. m),
      isEmissive = (\<lambda>pr. False),
      evalDirect = (\<lambda>pr d i. vec3 0 0 0),
      camSamplePosition = (\<lambda>s. (Some \<lparr>ps_p = vec3 0 0 0, ps_weight = vec3 1 1 1\<rparr>, s)),
      camSampleDirection = (\<lambda>s pt px. (Some \<lparr>ds_d = vec3 0 0 1, ds_weight = vec3 1 1 1\<rparr>, s)),
      camMedium = None\<rparr>"

definition demoSettings :: PhotonMapSettings where
  "demoSettings = \<lparr>minBounces = 1, maxBounces = 3, gatherCount = 2\<rparr>"

definition demoPhoton :: "int \<Rightarrow> Photon" where
  "demoPhoton n = \<lparr>pos = vec3 0 0 1, dir = vec3 0 0 1, power = vec3 1 1 1, bounce = n\<rparr>"

definition demoVolumePhoton :: "int \<Rightarrow> VolumePhoton" where
  "demoVolumePhoton n = \<lparr>pos = vec3 0 0 1, dir = vec3 0 0 1, power = vec3 1 1 1, bounce = n,
                          radiusSq = Finite 1\<rparr>"

definition demoPathPhoton :: "int \<Rightarrow> PathPhoton" where
  "demoPathPhoton n = \<lparr>pp_pos = vec3 5 (- 1) 0, pp_power = vec3 1 1 1, pp_dir = vec3 0 1 0,
                        pp_length = Finite 2, pp_data = (n, False)\<rparr>"

definition demoBounds :: Bounds where
  "demoBounds axis k = (if k < 2 then Finite (- 1) else Finite 1)"

definition emptyRange :: "'a \<Rightarrow> nat \<Rightarrow> 'a PhotonRange" where
  "emptyRange slot n = \<lparr>storage = replicate n slot, count = 0\<rparr>"

definition demoArgs :: GatherArgs where
  "demoArgs = \<lparr>pixel = (0, 0),
               surfaceTree = (\<lambda>p k r. [(demoPhoton 1, Finite 4), (demoPhoton 2, Finite 1)]),
               mediumTree = None, beamBvh = None, pathPhotons = (\<lambda>i. demoPathPhoton (int i)),
               gatherRadius = Finite 3, volumeGatherRadius = Finite (1 / 2)\<rparr>"

definition demoSampleVars :: "Bsdf \<Rightarrow> SampleVars" where
  "demoSampleVars b = \<lparr>s_bounce = 1, s_didHit = True, s_medium = None, s_ray = demoRay,
                     s_throughput = vec3 1 1 1, s_result = vec3 0 0 0, s_data = 0,
                     s_info = demoInfo b, s_sampler = 0\<rparr>"

definition demoPhotonVars :: "Medium option \<Rightarrow> PhotonVars" where
  "demoPhotonVars m =
     \<lparr>v_bounce = 0, v_wasSpecular = True, v_hitSurface = True, v_didHit = True, v_medium = m,
      v_ray = demoRay\<lparr>rdir := vec3 0 0 1\<rparr>, v_throughput = vec3 1 1 1, v_emission = vec3 0 0 0, v_state = 0,
      v_data = 0, v_info = demoInfo 0, v_event = demoEvent, v_sampler = 0,
      surfaceRange = emptyRange (demoPhoton 9) 2, volumeRange = emptyRange (demoVolumePhoton 9) 2,
      pathRange = emptyRange (demoPathPhoton 9) 2\<rparr>"

definition demoStart :: "sampler \<Rightarrow> PhotonVars" where
  "demoStart smp = the (fst (photonStart (demoEnv 0) (emptyRange (demoPhoton 9) 4)
                     (emptyRange (demoVolumePhoton 9) 4) (emptyRange (demoPathPhoton 9) 4) smp))"

definition demoCamera :: SampleVars where
  "demoCamera = the (sampleStart (demoEnv 0) demoArgs 0)"

definition demoSecond :: "sampler \<Rightarrow> PhotonVars" where
  "demoSecond smp = the (photonAfter (demoEnv 0) demoSettings 1 (demoStart smp))"

definition demoTight :: PhotonVars where
  "demoTight = the (fst (photonStart (demoEnv 0) (emptyRange (demoPhoton 9) 1)
                 (emptyRange (demoVolumePhoton 9) 0) (emptyRange (demoPathPhoton 9) 2) 0))"


text \<open>
  A medium whose extinction, phase function and transmittance depend on their arguments,
  and a beam that crosses the camera ray at \<open>(5, 0, 0)\<close> under an angle whose sine is
  \<open>4/5\<close>: it starts at \<open>(2, -4, 0)\<close>, runs along \<open>(3/5, 4/5, 0)\<close> and is 10 long. The second
  path photon of the pair lies at its far end and has another direction, length and power.
\<close>

definition beamEnv :: env where
  "beamEnv = (demoEnv 0)\<lparr>sigmaT := (\<lambda>m p. vadd p (vec3 0 1 2)),
                          phaseEval := (\<lambda>m p wi wo. vadd (vsub wi wo) (vec3 0 0 1)),
                          transmittance := (\<lambda>m s r. (vconst (farT r), s + 1))\<rparr>"

definition beamPhotons :: "nat \<Rightarrow> PathPhoton" where
  "beamPhotons i =
     (if i = 0 then \<lparr>pp_pos = vec3 2 (- 4) 0, pp_power = vec3 7 7 7, pp_dir = vec3 (3 / 5) (4 / 5) 0,
                     pp_length = Finite 10, pp_data = (0, False)\<rparr>
      else \<lparr>pp_pos = vec3 8 4 0, pp_power = vec3 1 2 3, pp_dir = vec3 1 0 0,
             pp_length = Finite 3, pp_data = (1, False)\<rparr>)"

definition beamBounds :: Bounds where
  "beamBounds axis k = (if k < 2 then Finite (- 4) else Finite 4)"

section \<open>Evaluation rules\<close>

lemmas vec_defs = cross_def dot_def vsub_def vadd_def vscale_def vlength_def fsub_def vconst_def
  vec3_def maxDim_def vabs_def fmax_def fmin_def fgt_def fge_def vnth_def vdivs_def vmul_def
  vneg_def svmul_def vsum_def vavg_def vmax_def sqr_def INV_PI_def

lemmas demo_defs = demoEnv_def demoSettings_def demoPathPhoton_def demoRay_def demoBounds_def
  demoInfo_def demoEvent_def demoPhoton_def demoVolumePhoton_def emptyRange_def

lemmas photon_defs = tracePhoton_def photonStart_def photonBody_def photonMedium_def
  photonSurface_def photonScatter_def photonCond_def full_def capacity_def addPhoton_def
  setPathInfo_def Let_def

lemmas sample_defs = traceSample_def sampleStart_def sampleBody_def sampleMedium_def
  sampleSurface_def sampleInteract_def sampleCond_def Let_def

section \<open>Ranges along the photon path\<close>

lemma grows_refl: "grows r r"
  by (simp add: grows_def)

lemma grows_trans:
  assumes "grows r r'" and "grows r' r''"
  shows "grows r r''"
proof -
  have "take (count r) (storage r'') = take (count r) (take (count r') (storage r''))"
    using assms(1) by (simp add: grows_def min.absorb1)
  also have "\<dots> = take (count r) (take (count r') (storage r'))"
    using assms(2) by (simp add: grows_def)
  also have "\<dots> = take (count r) (storage r)"
    using assms(1) by (simp add: grows_def min.absorb1)
  finally have pre: "take (count r) (storage r'') = take (count r) (storage r)" .
  show ?thesis
    using assms pre unfolding grows_def by auto
qed

lemma grows_addPhoton: "\<not> full r \<Longrightarrow> grows r (addPhoton f r)"
  by (simp add: grows_def addPhoton_def full_def capacity_def)

lemma newPhotons_refl: "newPhotons r r = []"
  by (simp add: newPhotons_def deposited_def)

lemma newPhotons_addPhoton: "\<not> full r \<Longrightarrow> newPhotons r (addPhoton f r) = [f (storage r ! count r)]"
  by (simp add: newPhotons_def deposited_def addPhoton_def full_def capacity_def
                take_Suc_conv_app_nth drop_take)

lemma newPhotons_trans:
  assumes "grows r r'" and "grows r' r''"
  shows "newPhotons r r'' = newPhotons r r' @ newPhotons r' r''"
proof -
  let ?A = "take (count r') (storage r'')"
  let ?B = "drop (count r') (take (count r'') (storage r''))"
  have le: "count r \<le> count r'" "count r' \<le> count r''"
    using assms by (simp_all add: grows_def)
  have pre: "?A = take (count r') (storage r')"
    using assms(2) by (simp add: grows_def)
  have split: "take (count r'') (storage r'') = ?A @ ?B"
  proof -
    have "?A = take (count r') (take (count r'') (storage r''))"
      using le(2) by (simp add: min.absorb1)
    then show ?thesis
      by (metis append_take_drop_id)
  qed
  have B: "drop (count r - length ?A) ?B = ?B"
  proof (cases "count r' \<le> length (storage r'')")
    case True
    then show ?thesis using le(1) by simp
  next
    case False
    then show ?thesis by simp
  qed
  have "drop (count r) (take (count r'') (storage r'')) = drop (count r) (?A @ ?B)"
    by (rule arg_cong [OF split])
  also have "\<dots> = drop (count r) ?A @ ?B"
    using B by (simp only: drop_append)
  finally show ?thesis
    by (simp only: newPhotons_def deposited_def pre)
qed

lemma photonMedium_ranges:
  "surfaceRange (flowState (photonMedium E m v)) = surfaceRange v
   \<and> v_info (flowState (photonMedium E m v)) = v_info v
   \<and> grows (volumeRange v) (volumeRange (flowState (photonMedium E m v)))
   \<and> grows (pathRange v) (pathRange (flowState (photonMedium E m v)))
   \<and> list_all (\<lambda>p. bounce p = v_bounce v)
        (newPhotons (volumeRange v) (volumeRange (flowState (photonMedium E m v))))
   \<and> list_all (\<lambda>p. pp_bounce p = v_bounce v \<and> \<not> pp_flag p)
        (newPhotons (pathRange v) (pathRange (flowState (photonMedium E m v))))"
  by (auto simp: photonMedium_def Let_def grows_refl grows_addPhoton newPhotons_refl
                 newPhotons_addPhoton setPathInfo_def pp_bounce_def pp_flag_def
           split: prod.splits option.splits)

lemma photonSurface_ranges:
  "volumeRange (photonSurface E v) = volumeRange v
   \<and> grows (surfaceRange v) (surfaceRange (photonSurface E v))
   \<and> grows (pathRange v) (pathRange (photonSurface E v))
   \<and> list_all (\<lambda>p. bounce p = v_bounce v)
        (newPhotons (surfaceRange v) (surfaceRange (photonSurface E v)))
   \<and> list_all (\<lambda>p. pp_bounce p = v_bounce v \<and> \<not> pp_flag p)
        (newPhotons (pathRange v) (pathRange (photonSurface E v)))
   \<and> (isPureSpecular E (bsdf (v_info v)) \<longrightarrow> surfaceRange (photonSurface E v) = surfaceRange v)"
  by (auto simp: photonSurface_def Let_def grows_refl grows_addPhoton newPhotons_refl
                 newPhotons_addPhoton setPathInfo_def pp_bounce_def pp_flag_def)

lemma photonScatter_ranges:
  "surfaceRange (flowState (photonScatter E cfg v)) = surfaceRange v
   \<and> volumeRange (flowState (photonScatter E cfg v)) = volumeRange v
   \<and> pathRange (flowState (photonScatter E cfg v)) = pathRange v"
  by (auto simp: photonScatter_def Let_def split: prod.splits)

lemma photonBody_cases:
  fixes E cfg v
  defines "v0 \<equiv> v\<lparr>v_bounce := v_bounce v + 1\<rparr>"
  defines "v1 \<equiv> (case v_medium v0 of None \<Rightarrow> v0 | Some m \<Rightarrow> flowState (photonMedium E m v0))"
  defines "v' \<equiv> flowState (photonBody E cfg v)"
  shows "(surfaceRange v' = surfaceRange v1 \<and> volumeRange v' = volumeRange v1
            \<and> pathRange v' = pathRange v1)
         \<or> (surfaceRange v' = surfaceRange (photonSurface E v1)
            \<and> volumeRange v' = volumeRange (photonSurface E v1)
            \<and> pathRange v' = pathRange (photonSurface E v1))"
proof (cases "v_medium v0")
  case None
  then have v1: "v1 = v0" by (simp add: v1_def)
  show ?thesis
    using None photonScatter_ranges [of E cfg "photonSurface E v0"]
    by (simp add: v'_def v1 photonBody_def v0_def [symmetric] Let_def)
next
  case (Some m)
  then have v1: "v1 = flowState (photonMedium E m v0)" by (simp add: v1_def)
  show ?thesis
  proof (cases "photonMedium E m v0")
    case (Break w)
    then show ?thesis
      using Some by (simp add: v'_def v1 photonBody_def v0_def [symmetric] Let_def)
  next
    case (Go w)
    then show ?thesis
      using Some photonScatter_ranges [of E cfg "photonSurface E w"]
      by (simp add: v'_def v1 photonBody_def v0_def [symmetric] Let_def)
  qed
qed

lemma photonBody_passOK: "passOK E v (flowState (photonBody E cfg v))"
proof -
  define v0 where "v0 = v\<lparr>v_bounce := v_bounce v + 1\<rparr>"
  define v1 where "v1 = (case v_medium v0 of None \<Rightarrow> v0 | Some m \<Rightarrow> flowState (photonMedium E m v0))"
  define v2 where "v2 = photonSurface E v1"
  define v' where "v' = flowState (photonBody E cfg v)"
  have r0: "surfaceRange v0 = surfaceRange v" "volumeRange v0 = volumeRange v"
           "pathRange v0 = pathRange v" "v_info v0 = v_info v" "v_bounce v0 = v_bounce v + 1"
    by (simp_all add: v0_def)
  have m: "surfaceRange v1 = surfaceRange v0 \<and> v_info v1 = v_info v0 \<and> v_bounce v1 = v_bounce v0
           \<and> grows (volumeRange v0) (volumeRange v1) \<and> grows (pathRange v0) (pathRange v1)
           \<and> list_all (\<lambda>p. bounce p = v_bounce v0) (newPhotons (volumeRange v0) (volumeRange v1))
           \<and> list_all (\<lambda>p. pp_bounce p = v_bounce v0 \<and> \<not> pp_flag p)
                (newPhotons (pathRange v0) (pathRange v1))"
  proof (cases "v_medium v0")
    case None
    then show ?thesis by (simp add: v1_def grows_refl newPhotons_refl)
  next
    case (Some m)
    have "v_bounce (flowState (photonMedium E m v0)) = v_bounce v0"
      using photonMedium_bounce [of E m v0] by (cases "photonMedium E m v0") auto
    then show ?thesis
      using Some photonMedium_ranges [of E m v0] by (simp add: v1_def)
  qed
  note s = photonSurface_ranges [of E v1, folded v2_def]
  have one: "passOK E v v1"
    using m r0 by (simp add: passOK_def grows_refl newPhotons_refl)
  have two: "passOK E v v2"
  proof -
    have gp: "grows (pathRange v) (pathRange v2)"
      using m s r0 grows_trans by metis
    have np: "newPhotons (pathRange v) (pathRange v2)
              = newPhotons (pathRange v0) (pathRange v1) @ newPhotons (pathRange v1) (pathRange v2)"
      using m s r0 newPhotons_trans by metis
    show ?thesis
      using m s r0 gp np by (simp add: passOK_def)
  qed
  have "passOK E v v'"
    using photonBody_cases [of E cfg v, folded v0_def, folded v1_def, folded v2_def, folded v'_def]
          one two
    by (auto simp: passOK_def)
  then show ?thesis by (simp add: v'_def)
qed

lemma runOK_refl: "runOK E cfg v v"
  by (simp add: runOK_def grows_refl newPhotons_refl)

lemma runOK_pass:
  assumes "photonCond cfg v" and "passOK E v v1"
  shows "runOK E cfg v v1"
  using assms by (auto simp: runOK_def passOK_def photonCond_def list_all_iff)

lemma runOK_step:
  assumes "photonCond cfg v" and "passOK E v v1" and "v_bounce v1 = v_bounce v + 1"
    and "runOK E cfg v1 v2"
  shows "runOK E cfg v v2"
proof -
  have g: "grows (surfaceRange v) (surfaceRange v2)" "grows (volumeRange v) (volumeRange v2)"
          "grows (pathRange v) (pathRange v2)"
    using assms(2,4) grows_trans unfolding passOK_def runOK_def by blast+
  have n: "newPhotons (surfaceRange v) (surfaceRange v2)
             = newPhotons (surfaceRange v) (surfaceRange v1) @ newPhotons (surfaceRange v1) (surfaceRange v2)"
          "newPhotons (volumeRange v) (volumeRange v2)
             = newPhotons (volumeRange v) (volumeRange v1) @ newPhotons (volumeRange v1) (volumeRange v2)"
          "newPhotons (pathRange v) (pathRange v2)
             = newPhotons (pathRange v) (pathRange v1) @ newPhotons (pathRange v1) (pathRange v2)"
    using assms(2,4) newPhotons_trans unfolding passOK_def runOK_def by blast+
  have s: "(\<forall>b. isPureSpecular E b) \<longrightarrow> surfaceRange v2 = surfaceRange v"
    using assms(2,4) unfolding passOK_def runOK_def by auto
  show ?thesis
    unfolding runOK_def n
    using g s assms unfolding passOK_def runOK_def photonCond_def
    by (auto simp: list_all_iff)
qed

lemma tracePhotonLoop_runOK: "runOK E cfg v (tracePhotonLoop E cfg v)"
proof (induction E cfg v rule: tracePhotonLoop.induct)
  case (1 E cfg v)
  show ?case
  proof (cases "photonCond cfg v")
    case False
    then show ?thesis by (simp add: tracePhotonLoop.simps [of E cfg v] runOK_refl)
  next
    case True
    note ok = photonBody_passOK [of E v cfg]
    show ?thesis
    proof (cases "photonBody E cfg v")
      case (Break w)
      then show ?thesis
        using True ok runOK_pass [of cfg v E w]
        by (simp add: tracePhotonLoop.simps [of E cfg v])
    next
      case (Go w)
      have b: "v_bounce w = v_bounce v + 1"
        using Go photonBody_bounce by blast
      show ?thesis
        using True Go ok b "1.IH" [OF True Go] runOK_step [of cfg v E w "tracePhotonLoop E cfg w"]
        by (simp add: tracePhotonLoop.simps [of E cfg v])
    qed
  qed
qed

lemma photonStart_ranges:
  assumes "photonStart E sr vr pr smp = (Some v0, smp')"
  shows "surfaceRange v0 = sr \<and> volumeRange v0 = vr \<and> v_bounce v0 = 0
         \<and> grows pr (pathRange v0)
         \<and> list_all (\<lambda>p. pp_bounce p = 0 \<and> \<not> pp_flag p) (newPhotons pr (pathRange v0))"
  using assms
  by (auto simp: photonStart_def Let_def grows_refl grows_addPhoton newPhotons_refl
                 newPhotons_addPhoton setPathInfo_def pp_bounce_def pp_flag_def
           split: prod.splits option.splits if_splits)

lemma tracePhoton_run:
  assumes "tracePhoton E cfg sr vr pr smp = (sr', vr', pr', smp')"
  shows "grows sr sr' \<and> grows vr vr' \<and> grows pr pr'
         \<and> list_all (\<lambda>p. 0 < bounce p \<and> bounce p < maxBounces cfg) (newPhotons sr sr')
         \<and> list_all (\<lambda>p. 0 < bounce p \<and> bounce p < maxBounces cfg) (newPhotons vr vr')
         \<and> list_all (\<lambda>p. \<not> pp_flag p) (newPhotons pr pr')
         \<and> ((\<forall>b. isPureSpecular E b) \<longrightarrow> sr' = sr)"
proof (cases "fst (photonStart E sr vr pr smp)")
  case None
  then have "sr' = sr \<and> vr' = vr \<and> pr' = pr"
    using assms by (auto simp: tracePhoton_def split: prod.splits)
  then show ?thesis
    by (simp add: grows_refl newPhotons_refl)
next
  case (Some v0)
  then obtain s1 where st: "photonStart E sr vr pr smp = (Some v0, s1)"
    by (cases "photonStart E sr vr pr smp") auto
  note a = photonStart_ranges [OF st]
  note b = tracePhotonLoop_runOK [of E cfg v0, unfolded runOK_def]
  have out: "sr' = surfaceRange (tracePhotonLoop E cfg v0)"
            "vr' = volumeRange (tracePhotonLoop E cfg v0)"
            "pr' = pathRange (tracePhotonLoop E cfg v0)"
    using assms st by (simp_all add: tracePhoton_def Let_def)
  have gp: "grows pr pr'"
    using a b out grows_trans by metis
  have np: "newPhotons pr pr' = newPhotons pr (pathRange v0) @ newPhotons (pathRange v0) pr'"
    using a b out newPhotons_trans by metis
  show ?thesis
    using a b gp unfolding np out [symmetric]
    by (auto simp: list_all_iff)
qed

lemma photonBody_vacuum:
  assumes "v_medium v = None"
  shows "surfaceRange (flowState (photonBody E cfg v))
           = surfaceRange (photonSurface E (v\<lparr>v_bounce := v_bounce v + 1\<rparr>))
         \<and> pathRange (flowState (photonBody E cfg v))
           = pathRange (photonSurface E (v\<lparr>v_bounce := v_bounce v + 1\<rparr>))"
  using assms photonScatter_ranges [of E cfg "photonSurface E (v\<lparr>v_bounce := v_bounce v + 1\<rparr>)"]
  by (simp add: photonBody_def Let_def)

section \<open>The bounce counters\<close>

lemma photonBody_bounce_flowState: "v_bounce (flowState (photonBody E cfg v)) = v_bounce v + 1"
  using photonBody_bounce [of E cfg v] by (cases "photonBody E cfg v") auto

lemma sampleBody_bounce_flowState: "s_bounce (flowState (sampleBody E cfg args v)) = s_bounce v + 1"
  using sampleBody_bounce [of E cfg args v] by (cases "sampleBody E cfg args v") auto

lemma photonAfter_bounce:
  "photonAfter E cfg k v = Some vk \<Longrightarrow>
     v_bounce vk = v_bounce v + int k \<and> tracePhotonLoop E cfg v = tracePhotonLoop E cfg vk"
proof (induction k arbitrary: v)
  case 0
  then show ?case by simp
next
  case (Suc k)
  from Suc.prems obtain w where c: "photonCond cfg v" and g: "photonBody E cfg v = Go w"
    and r: "photonAfter E cfg k w = Some vk"
    by (auto split: if_splits flow.splits)
  have "v_bounce w = v_bounce v + 1"
    using g photonBody_bounce by blast
  moreover have "tracePhotonLoop E cfg v = tracePhotonLoop E cfg w"
    using c g by (simp add: tracePhotonLoop.simps [of E cfg v])
  ultimately show ?case
    using Suc.IH [OF r] by simp
qed

lemma tracePhotonIters_bound:
  "int (tracePhotonIters E cfg v) \<le> max 0 (maxBounces cfg - 1 - v_bounce v)
   \<and> v_bounce (tracePhotonLoop E cfg v) = v_bounce v + int (tracePhotonIters E cfg v)"
proof (induction E cfg v rule: tracePhotonIters.induct)
  case (1 E cfg v)
  show ?case
  proof (cases "photonCond cfg v")
    case False
    then show ?thesis
      by (simp add: tracePhotonIters.simps [of E cfg v] tracePhotonLoop.simps [of E cfg v])
  next
    case True
    show ?thesis
    proof (cases "photonBody E cfg v")
      case (Break w)
      then show ?thesis
        using True photonBody_bounce [of E cfg v w]
        by (simp add: tracePhotonIters.simps [of E cfg v] tracePhotonLoop.simps [of E cfg v]
                      photonCond_def)
    next
      case (Go w)
      then show ?thesis
        using True photonBody_bounce [of E cfg v w] "1.IH" [OF True Go]
        by (simp add: tracePhotonIters.simps [of E cfg v] tracePhotonLoop.simps [of E cfg v]
                      photonCond_def)
    qed
  qed
qed

lemma traceSampleIters_bound:
  "int (traceSampleIters E cfg args v) \<le> max 0 (maxBounces cfg - s_bounce v)
   \<and> s_bounce (traceSampleLoop E cfg args v) = s_bounce v + int (traceSampleIters E cfg args v)"
proof (induction E cfg args v rule: traceSampleIters.induct)
  case (1 E cfg args v)
  show ?case
  proof (cases "sampleCond cfg v")
    case False
    then show ?thesis
      by (simp add: traceSampleIters.simps [of E cfg args v] traceSampleLoop.simps [of E cfg args v])
  next
    case True
    show ?thesis
    proof (cases "sampleBody E cfg args v")
      case (Break w)
      then show ?thesis
        using True sampleBody_bounce [of E cfg args v w]
        by (simp add: traceSampleIters.simps [of E cfg args v]
                      traceSampleLoop.simps [of E cfg args v] sampleCond_def)
    next
      case (Go w)
      then show ?thesis
        using True sampleBody_bounce [of E cfg args v w] "1.IH" [OF True Go]
        by (simp add: traceSampleIters.simps [of E cfg args v]
                      traceSampleLoop.simps [of E cfg args v] sampleCond_def)
    qed
  qed
qed

lemma sampleStart_bounce: "sampleStart E args smp = Some u0 \<Longrightarrow> s_bounce u0 = 0"
  by (auto simp: sampleStart_def split: prod.splits option.splits)

section \<open>The length of the combined path\<close>

lemma toInt32_id: "int32 n \<Longrightarrow> toInt32 n = n"
  by (simp add: int32_def toInt32_def)

lemma toInt32_range: "int32 (toInt32 n)"
  by (simp add: int32_def toInt32_def)

text \<open>
  Claim C1, as amended. The surface gather and the point-kernel volume query test
  \<open>bounce + p.bounce - 1\<close>; the beam query tests \<open>bounce + p0.bounce()\<close>, the bounce
  index of the first path photon of the segment, with no \<open>- 1\<close> (a photon on the segment
  from \<open>p0\<close> to \<open>p1\<close> would carry \<open>p0.bounce() + 1\<close>). The value tested is the one the
  32-bit local holds, \<open>toInt32\<close> of the sum: the sum itself whenever that fits into 32
  bits, and always a 32-bit number. In each of the three tests a record whose value is
  rejected leaves the running estimate, and the sample stream, as they were; a surface
  photon or volume photon whose value is not rejected adds its term. A value is rejected
  exactly when it is outside \<open>[minBounces, maxBounces)\<close>: when that interval is not
  empty, \<open>minBounces\<close> and \<open>maxBounces - 1\<close> pass; \<open>minBounces - 1\<close> and \<open>maxBounces\<close> never
  pass.
\<close>

theorem path_length_filter:
  "(bounceRejected cfg (toInt32 (b + bounce p - 1)) \<longrightarrow> surfaceVisit E cfg bs b p acc = acc)
   \<and> (\<not> bounceRejected cfg (toInt32 (b + bounce p - 1)) \<longrightarrow>
        snd (surfaceVisit E cfg bs b p (ev, est)) =
          vadd est (vdivs (vmul (power p)
                                (bsdfEval E bs (ev\<lparr>wo := toLocal E (frame ev) (vneg (dir p))\<rparr>) False))
                          (fabs (vz (toLocal E (frame ev) (vneg (dir p)))))))
   \<and> (bounceRejected cfg (toInt32 (b + bounce q - 1)) \<longrightarrow>
        volumeVisit E cfg m ray b (q, t, distSq) vacc = vacc)
   \<and> (\<not> bounceRejected cfg (toInt32 (b + bounce q - 1)) \<longrightarrow>
        fst (volumeVisit E cfg m ray b (q, t, distSq) (est, smp)) =
          vadd est
            (vmul (vmul (svmul (fdiv (fmul (fmul (Finite 3) INV_PI)
                                           (sqr (fsub (Finite 1) (fdiv distSq (radiusSq q)))))
                                     (radiusSq q))
                               (phaseEval E m (pos q) (rdir ray) (vneg (dir q))))
                        (fst (transmittance E m smp (ray\<lparr>farT := t\<rparr>))))
                  (power q)))
   \<and> (bounceRejected cfg (toInt32 (b + pp_bounce (photons i))) \<longrightarrow>
        beamVisit E cfg m photons radius b (ray, i, tMin, bounds) vacc = vacc)
   \<and> (int32 n \<longrightarrow> toInt32 n = n)
   \<and> int32 (toInt32 n)
   \<and> (bounceRejected cfg n \<longleftrightarrow> \<not> (minBounces cfg \<le> n \<and> n < maxBounces cfg))
   \<and> (minBounces cfg < maxBounces cfg \<longrightarrow>
        \<not> bounceRejected cfg (minBounces cfg) \<and> \<not> bounceRejected cfg (maxBounces cfg - 1))
   \<and> bounceRejected cfg (minBounces cfg - 1) \<and> bounceRejected cfg (maxBounces cfg)"
proof -
  have s1: "bounceRejected cfg (toInt32 (b + bounce p - 1)) \<longrightarrow> surfaceVisit E cfg bs b p acc = acc"
    by (simp add: surfaceVisit_def Let_def split: prod.splits)
  have s2: "\<not> bounceRejected cfg (toInt32 (b + bounce p - 1)) \<longrightarrow>
        snd (surfaceVisit E cfg bs b p (ev, est)) =
          vadd est (vdivs (vmul (power p)
                                (bsdfEval E bs (ev\<lparr>wo := toLocal E (frame ev) (vneg (dir p))\<rparr>) False))
                          (fabs (vz (toLocal E (frame ev) (vneg (dir p))))))"
    by (simp add: surfaceVisit_def Let_def)
  have v1: "bounceRejected cfg (toInt32 (b + bounce q - 1)) \<longrightarrow>
        volumeVisit E cfg m ray b (q, t, distSq) vacc = vacc"
    by (simp add: volumeVisit_def Let_def split: prod.splits)
  have v2: "\<not> bounceRejected cfg (toInt32 (b + bounce q - 1)) \<longrightarrow>
        fst (volumeVisit E cfg m ray b (q, t, distSq) (est, smp)) =
          vadd est
            (vmul (vmul (svmul (fdiv (fmul (fmul (Finite 3) INV_PI)
                                           (sqr (fsub (Finite 1) (fdiv distSq (radiusSq q)))))
                                     (radiusSq q))
                               (phaseEval E m (pos q) (rdir ray) (vneg (dir q))))
                        (fst (transmittance E m smp (ray\<lparr>farT := t\<rparr>))))
                  (power q))"
    by (simp add: volumeVisit_def Let_def split: prod.splits)
  have b1: "bounceRejected cfg (toInt32 (b + pp_bounce (photons i))) \<longrightarrow>
        beamVisit E cfg m photons radius b (ray, i, tMin, bounds) vacc = vacc"
    by (simp add: beamVisit_def Let_def split: prod.splits)
  have r: "(bounceRejected cfg n \<longleftrightarrow> \<not> (minBounces cfg \<le> n \<and> n < maxBounces cfg))
     \<and> (minBounces cfg < maxBounces cfg \<longrightarrow>
        \<not> bounceRejected cfg (minBounces cfg) \<and> \<not> bounceRejected cfg (maxBounces cfg - 1))
     \<and> bounceRejected cfg (minBounces cfg - 1) \<and> bounceRejected cfg (maxBounces cfg)"
    by (auto simp: bounceRejected_def)
  show ?thesis
    using s1 s2 v1 v2 b1 r toInt32_id [of n] toInt32_range [of n] by blast
qed

text \<open>
  With \<open>minBounces = 1\<close> and \<open>maxBounces = 3\<close>. At the second camera bounce a surface
  photon, a volume photon and a beam whose value is 3 are skipped. A surface photon with
  value 1 and a volume photon with value 2, the two ends of the interval, add their terms.
\<close>

theorem path_length_filter_witness:
  "bounceRejected demoSettings (toInt32 (2 + bounce (demoPhoton 2) - 1))
   \<and> surfaceVisit (demoEnv 0) demoSettings 0 2 (demoPhoton 2) (demoEvent, vec3 1 1 1)
       = (demoEvent, vec3 1 1 1)
   \<and> bounceRejected demoSettings (toInt32 (2 + bounce (demoVolumePhoton 2) - 1))
   \<and> volumeVisit (demoEnv 0) demoSettings 0 demoRay 2 (demoVolumePhoton 2, Finite 1, Finite 0)
         (vec3 1 1 1, 0) = (vec3 1 1 1, 0)
   \<and> bounceRejected demoSettings (toInt32 (2 + pp_bounce (pathPhotons demoArgs 1)))
   \<and> beamVisit (demoEnv 0) demoSettings 0 (pathPhotons demoArgs) (Finite (1 / 2)) 2
         (demoRay, 1, Finite 0, demoBounds) (vec3 1 1 1, 0) = (vec3 1 1 1, 0)
   \<and> \<not> bounceRejected demoSettings (toInt32 (1 + bounce (demoPhoton 1) - 1))
   \<and> snd (surfaceVisit (demoEnv 0) demoSettings 0 1 (demoPhoton 1) (demoEvent, vec3 1 1 1))
       = vec3 (5 / 4) (3 / 2) (7 / 4)
   \<and> \<not> bounceRejected demoSettings (toInt32 (2 + bounce (demoVolumePhoton 1) - 1))
   \<and> fst (volumeVisit (demoEnv 0) demoSettings 0 demoRay 2 (demoVolumePhoton 1, Finite 1, Finite 0)
         (vec3 1 1 1, 0)) = vec3 (1 + 3 / pi) (1 + 3 / pi) (1 + 3 / pi)
   \<and> int32 (2 + bounce (demoPhoton 2) - 1)
   \<and> toInt32 (2 + bounce (demoPhoton 2) - 1) = 3
   \<and> minBounces demoSettings < maxBounces demoSettings
   \<and> \<not> bounceRejected demoSettings (minBounces demoSettings)
   \<and> \<not> bounceRejected demoSettings (maxBounces demoSettings - 1)"
proof -
  note R = path_length_filter [where cfg = demoSettings and b = 2 and p = "demoPhoton 2"
      and E = "demoEnv 0" and bs = 0 and acc = "(demoEvent, vec3 1 1 1)"
      and q = "demoVolumePhoton 2" and m = 0 and ray = demoRay and t = "Finite 1"
      and distSq = "Finite 0" and vacc = "(vec3 1 1 1, 0)" and photons = "pathPhotons demoArgs"
      and i = 1 and radius = "Finite (1 / 2)" and tMin = "Finite 0" and bounds = demoBounds
      and n = "2 + bounce (demoPhoton 2) - 1"]
  note A = path_length_filter [where cfg = demoSettings and b = 1 and p = "demoPhoton 1"
      and E = "demoEnv 0" and bs = 0 and ev = demoEvent and est = "vec3 1 1 1"]
  note B = path_length_filter [where cfg = demoSettings and b = 2 and q = "demoVolumePhoton 1"
      and E = "demoEnv 0" and m = 0 and ray = demoRay and t = "Finite 1" and distSq = "Finite 0"
      and est = "vec3 1 1 1" and smp = 0]
  have fits: "int32 (2 + bounce (demoPhoton 2) - 1)" "2 + bounce (demoPhoton 2) - 1 = 3"
    by (simp_all add: int32_def demoPhoton_def)
  have w: "toInt32 (2 + bounce (demoPhoton 2) - 1) = 3"
    using R fits by metis
  have rej: "bounceRejected demoSettings (toInt32 (2 + bounce (demoPhoton 2) - 1))"
       "bounceRejected demoSettings (toInt32 (2 + bounce (demoVolumePhoton 2) - 1))"
       "bounceRejected demoSettings (toInt32 (2 + pp_bounce (pathPhotons demoArgs 1)))"
    by (simp_all add: bounceRejected_def toInt32_def pp_bounce_def demoSettings_def demoPhoton_def
                      demoVolumePhoton_def demoPathPhoton_def demoArgs_def)
  have acc: "\<not> bounceRejected demoSettings (toInt32 (1 + bounce (demoPhoton 1) - 1))"
       "\<not> bounceRejected demoSettings (toInt32 (2 + bounce (demoVolumePhoton 1) - 1))"
       "minBounces demoSettings < maxBounces demoSettings"
    by (simp_all add: bounceRejected_def toInt32_def demoSettings_def demoPhoton_def
                      demoVolumePhoton_def)
  have r1: "surfaceVisit (demoEnv 0) demoSettings 0 2 (demoPhoton 2) (demoEvent, vec3 1 1 1)
       = (demoEvent, vec3 1 1 1)"
    using R rej(1) by blast
  have r2: "volumeVisit (demoEnv 0) demoSettings 0 demoRay 2 (demoVolumePhoton 2, Finite 1, Finite 0)
         (vec3 1 1 1, 0) = (vec3 1 1 1, 0)"
    using R rej(2) by blast
  have r3: "beamVisit (demoEnv 0) demoSettings 0 (pathPhotons demoArgs) (Finite (1 / 2)) 2
         (demoRay, 1, Finite 0, demoBounds) (vec3 1 1 1, 0) = (vec3 1 1 1, 0)"
    using R rej(3) by blast
  have a1: "snd (surfaceVisit (demoEnv 0) demoSettings 0 1 (demoPhoton 1) (demoEvent, vec3 1 1 1))
       = vec3 (5 / 4) (3 / 2) (7 / 4)"
    using A acc(1) by (simp add: vec_defs demo_defs)
  have a2: "fst (volumeVisit (demoEnv 0) demoSettings 0 demoRay 2 (demoVolumePhoton 1, Finite 1, Finite 0)
         (vec3 1 1 1, 0)) = vec3 (1 + 3 / pi) (1 + 3 / pi) (1 + 3 / pi)"
    using B acc(2) by (simp add: vec_defs demo_defs)
  have bd: "\<not> bounceRejected demoSettings (minBounces demoSettings)"
           "\<not> bounceRejected demoSettings (maxBounces demoSettings - 1)"
    using R acc(3) by blast+
  show ?thesis
    using rej acc r1 r2 r3 a1 a2 bd fits(1) w by blast
qed

text \<open>
  The claim as it was stated fails for the beam query. With \<open>minBounces = 1\<close>, at the
  first camera bounce, a beam that starts at the emission point (bounce index 0) and that
  the camera ray crosses at a right angle adds to the estimate, although camera bounces
  plus stored bounce count minus one is 0 and lies below \<open>minBounces\<close>. And with
  \<open>minBounces = -2147483648\<close>, at the first camera bounce, the same beam with the stored
  bounce index 2147483647 adds to the estimate, although camera bounces plus stored
  bounce count minus one is 2147483647 and \<open>maxBounces\<close> is 3: the local holds
  \<open>-2147483648\<close>.
\<close>

theorem beam_filter_counterexample:
  "beamVisit (demoEnv 0) demoSettings 0 (pathPhotons demoArgs) (volumeGatherRadius demoArgs) 1
       (demoRay, 0, Finite 0, demoBounds) (vconst (Finite 0), 0) = (vec3 1 1 1, 0)
   \<and> vec3 1 1 1 \<noteq> vconst (Finite 0)
   \<and> 1 + pp_bounce (pathPhotons demoArgs 0) - 1 < minBounces demoSettings
   \<and> beamVisit (demoEnv 0) (demoSettings\<lparr>minBounces := - 2147483648\<rparr>) 0 (pathPhotons demoArgs)
       (volumeGatherRadius demoArgs) 1
       (demoRay, 2147483647, Finite 0, demoBounds) (vconst (Finite 0), 0) = (vec3 1 1 1, 0)
   \<and> maxBounces (demoSettings\<lparr>minBounces := - 2147483648\<rparr>)
        \<le> 1 + pp_bounce (pathPhotons demoArgs 2147483647) - 1"
  by (simp add: beamVisit_def bounceRejected_def toInt32_def pp_bounce_def Let_def vec_defs
                demo_defs demoArgs_def)

section \<open>The surface estimate\<close>




section \<open>The bounded ranges\<close>

text \<open>
  Claim C3. Whatever the scene, the light, the media and the sample stream do, a call of
  \<open>tracePhoton\<close> leaves every range with its capacity, and with a count within the
  capacity if it was within it before; a range that is full when the call starts comes
  back as it was, so nothing is appended to a full range. A pass of the path loop that
  runs on to the next test of the loop condition (\<open>Go\<close>) never ends with all three ranges
  full: the pass after whose deposits all three are full is the last one, and the loop
  returns the variables as that pass leaves them.
\<close>

theorem ranges_within_capacity:
  assumes "tracePhoton E cfg sr vr pr smp = (sr', vr', pr', smp')"
  shows "(count sr \<le> capacity sr \<longrightarrow> count sr' \<le> capacity sr')
       \<and> (count vr \<le> capacity vr \<longrightarrow> count vr' \<le> capacity vr')
       \<and> (count pr \<le> capacity pr \<longrightarrow> count pr' \<le> capacity pr')
       \<and> capacity sr' = capacity sr \<and> capacity vr' = capacity vr \<and> capacity pr' = capacity pr
       \<and> (full sr \<longrightarrow> sr' = sr) \<and> (full vr \<longrightarrow> vr' = vr) \<and> (full pr \<longrightarrow> pr' = pr)
       \<and> (photonBody E cfg v = Go w \<longrightarrow>
             \<not> (full (volumeRange w) \<and> full (surfaceRange w) \<and> full (pathRange w)))
       \<and> (photonCond cfg v \<and> u = flowState (photonBody E cfg v)
             \<and> full (volumeRange u) \<and> full (surfaceRange u) \<and> full (pathRange u) \<longrightarrow>
             tracePhotonLoop E cfg v = u)"
proof -
  have go: "photonBody E cfg v = Go w \<Longrightarrow>
          \<not> (full (volumeRange w) \<and> full (surfaceRange w) \<and> full (pathRange w))" for w
    using photonScatter_ranges [of E cfg "photonSurface E u" for u]
    by (auto simp: photonBody_def Let_def split: option.splits flow.splits if_splits)
       (metis flowState.simps(2))+
  have stop: "tracePhotonLoop E cfg v = u"
    if "photonCond cfg v" "u = flowState (photonBody E cfg v)"
       "full (volumeRange u) \<and> full (surfaceRange u) \<and> full (pathRange u)"
  proof (cases "photonBody E cfg v")
    case (Break w)
    then show ?thesis
      using that by (simp add: tracePhotonLoop.simps [of E cfg v])
  next
    case (Go w)
    then show ?thesis
      using that go [of w] by simp
  qed
  show ?thesis
    using tracePhoton_run [OF assms] go [of w] stop by (auto simp: grows_def)
qed

text \<open>
  A surface range of one slot, a volume range of none and a path range of two: after the
  first surface hit all three are full and the loop ends there, with the counter at 1,
  although \<open>maxBounces = 3\<close> would allow a second pass. With two slots in each range the
  first pass runs on.
\<close>

theorem ranges_within_capacity_witness:
  "tracePhoton (demoEnv 0) demoSettings (emptyRange (demoPhoton 9) 1)
       (emptyRange (demoVolumePhoton 9) 0) (emptyRange (demoPathPhoton 9) 2) 0
     = (\<lparr>storage = [(demoPhoton 1)\<lparr>power := vec3 (8 / 5) (8 / 5) (8 / 5)\<rparr>], count = 1\<rparr>,
        emptyRange (demoVolumePhoton 9) 0,
        \<lparr>storage = [(demoPathPhoton 0)\<lparr>pp_pos := vec3 0 0 0, pp_power := vec3 2 2 2, pp_data := (0, False)\<rparr>,
                    (demoPathPhoton 0)\<lparr>pp_pos := vec3 0 0 1, pp_power := vec3 2 2 2, pp_data := (1, False)\<rparr>],
         count = 2\<rparr>, 0)
   \<and> count (emptyRange (demoPhoton 9) 1) \<le> capacity (emptyRange (demoPhoton 9) 1)
   \<and> count (emptyRange (demoPathPhoton 9) 2) \<le> capacity (emptyRange (demoPathPhoton 9) 2)
   \<and> full (emptyRange (demoVolumePhoton 9) 0)
   \<and> count \<lparr>storage = [(demoPhoton 1)\<lparr>power := vec3 (8 / 5) (8 / 5) (8 / 5)\<rparr>], count = 1\<rparr>
        \<le> capacity \<lparr>storage = [(demoPhoton 1)\<lparr>power := vec3 (8 / 5) (8 / 5) (8 / 5)\<rparr>], count = 1\<rparr>
   \<and> (\<exists>w. photonBody (demoEnv 0) demoSettings (demoPhotonVars None) = Go w
            \<and> \<not> (full (volumeRange w) \<and> full (surfaceRange w) \<and> full (pathRange w)))
   \<and> photonCond demoSettings demoTight
   \<and> full (surfaceRange (flowState (photonBody (demoEnv 0) demoSettings demoTight)))
   \<and> full (volumeRange (flowState (photonBody (demoEnv 0) demoSettings demoTight)))
   \<and> full (pathRange (flowState (photonBody (demoEnv 0) demoSettings demoTight)))
   \<and> tracePhotonLoop (demoEnv 0) demoSettings demoTight
       = flowState (photonBody (demoEnv 0) demoSettings demoTight)
   \<and> v_bounce (flowState (photonBody (demoEnv 0) demoSettings demoTight)) = 1
   \<and> 1 < maxBounces demoSettings - 1"
proof -
  let ?sr = "\<lparr>storage = [(demoPhoton 1)\<lparr>power := vec3 (8 / 5) (8 / 5) (8 / 5)\<rparr>], count = 1\<rparr>"
  let ?pr = "\<lparr>storage = [(demoPathPhoton 0)\<lparr>pp_pos := vec3 0 0 0, pp_power := vec3 2 2 2, pp_data := (0, False)\<rparr>,
                    (demoPathPhoton 0)\<lparr>pp_pos := vec3 0 0 1, pp_power := vec3 2 2 2, pp_data := (1, False)\<rparr>],
         count = 2\<rparr>"
  let ?u = "flowState (photonBody (demoEnv 0) demoSettings demoTight)"
  have run: "tracePhoton (demoEnv 0) demoSettings (emptyRange (demoPhoton 9) 1)
       (emptyRange (demoVolumePhoton 9) 0) (emptyRange (demoPathPhoton 9) 2) 0
     = (?sr, emptyRange (demoVolumePhoton 9) 0, ?pr, 0)"
    by (simp add: photon_defs tracePhotonLoop.simps vec_defs demo_defs eval_nat_numeral)
  obtain w where go: "photonBody (demoEnv 0) demoSettings (demoPhotonVars None) = Go w"
    by (simp add: photon_defs demoPhotonVars_def vec_defs demo_defs eval_nat_numeral)
  note T = ranges_within_capacity [OF run, where v = "demoPhotonVars None" and w = w]
  note S = ranges_within_capacity [OF run, where v = demoTight and u = ?u]
  have pre: "count (emptyRange (demoPhoton 9) 1) \<le> capacity (emptyRange (demoPhoton 9) 1)"
            "count (emptyRange (demoPathPhoton 9) 2) \<le> capacity (emptyRange (demoPathPhoton 9) 2)"
            "full (emptyRange (demoVolumePhoton 9) 0)"
    by (simp_all add: emptyRange_def capacity_def full_def)
  have tight: "photonCond demoSettings demoTight" "full (surfaceRange ?u)" "full (volumeRange ?u)"
      "full (pathRange ?u)" "v_bounce ?u = 1" "1 < maxBounces demoSettings - 1"
    by (simp_all add: demoTight_def photon_defs vec_defs demo_defs eval_nat_numeral)
  have "count ?sr \<le> capacity ?sr"
    using T pre by blast
  moreover have "\<not> (full (volumeRange w) \<and> full (surfaceRange w) \<and> full (pathRange w))"
    using T go by blast
  moreover have "tracePhotonLoop (demoEnv 0) demoSettings demoTight = ?u"
    using S tight by blast
  ultimately show ?thesis
    using run pre go tight by blast
qed

section \<open>Deposits at a surface\<close>

text \<open>
  Claim C4. In the block of the photon loop that handles a surface hit, a surface photon
  is deposited exactly when the BSDF of the surface is not purely specular and the surface
  range is not full; it takes the hit point, the ray direction, the bounce counter and the
  power \<open>throughput * |Ns.d / Ng.d|\<close>. A path photon with the plain throughput is
  deposited whenever the path range is not full, purely specular or not. For a path in
  vacuum these are the deposits of the whole pass (with the counter incremented first); a
  pass that starts at a purely specular hit leaves the surface range as it was, and so does
  a whole call of \<open>tracePhoton\<close> in a scene whose BSDFs are all purely specular.
\<close>

theorem surface_deposit:
  "(v_hitSurface v \<and> \<not> isPureSpecular E (bsdf (v_info v)) \<and> \<not> full (surfaceRange v) \<longrightarrow>
      newPhotons (surfaceRange v) (surfaceRange (photonSurface E v)) =
        [(storage (surfaceRange v) ! count (surfaceRange v))
           \<lparr>pos := i_p (v_info v), dir := rdir (v_ray v),
            power := vscale (v_throughput v)
                       (fabs (fdiv (dot (Ns (v_info v)) (rdir (v_ray v)))
                                   (dot (Ng (v_info v)) (rdir (v_ray v))))),
            bounce := v_bounce v\<rparr>])
   \<and> (\<not> v_hitSurface v \<or> isPureSpecular E (bsdf (v_info v)) \<or> full (surfaceRange v) \<longrightarrow>
        surfaceRange (photonSurface E v) = surfaceRange v)
   \<and> (v_hitSurface v \<and> \<not> full (pathRange v) \<longrightarrow>
        newPhotons (pathRange v) (pathRange (photonSurface E v)) =
          [setPathInfo (v_bounce v) False
             ((storage (pathRange v) ! count (pathRange v))
                \<lparr>pp_pos := i_p (v_info v), pp_power := v_throughput v\<rparr>)])
   \<and> (v_medium v = None \<longrightarrow>
        surfaceRange (flowState (photonBody E cfg v))
          = surfaceRange (photonSurface E (v\<lparr>v_bounce := v_bounce v + 1\<rparr>))
        \<and> pathRange (flowState (photonBody E cfg v))
          = pathRange (photonSurface E (v\<lparr>v_bounce := v_bounce v + 1\<rparr>)))
   \<and> (isPureSpecular E (bsdf (v_info v)) \<longrightarrow>
        surfaceRange (flowState (photonBody E cfg v)) = surfaceRange v)
   \<and> ((\<forall>b. isPureSpecular E b) \<and> tracePhoton E cfg sr vr pr smp = (sr', vr', pr', smp') \<longrightarrow>
        sr' = sr)"
proof -
  have a: "v_hitSurface v \<and> \<not> isPureSpecular E (bsdf (v_info v)) \<and> \<not> full (surfaceRange v) \<longrightarrow>
      newPhotons (surfaceRange v) (surfaceRange (photonSurface E v)) =
        [(storage (surfaceRange v) ! count (surfaceRange v))
           \<lparr>pos := i_p (v_info v), dir := rdir (v_ray v),
            power := vscale (v_throughput v)
                       (fabs (fdiv (dot (Ns (v_info v)) (rdir (v_ray v)))
                                   (dot (Ng (v_info v)) (rdir (v_ray v))))),
            bounce := v_bounce v\<rparr>]"
    by (simp add: photonSurface_def Let_def newPhotons_addPhoton)
  have b: "\<not> v_hitSurface v \<or> isPureSpecular E (bsdf (v_info v)) \<or> full (surfaceRange v) \<longrightarrow>
        surfaceRange (photonSurface E v) = surfaceRange v"
    by (auto simp: photonSurface_def Let_def)
  have c: "v_hitSurface v \<and> \<not> full (pathRange v) \<longrightarrow>
        newPhotons (pathRange v) (pathRange (photonSurface E v)) =
          [setPathInfo (v_bounce v) False
             ((storage (pathRange v) ! count (pathRange v))
                \<lparr>pp_pos := i_p (v_info v), pp_power := v_throughput v\<rparr>)]"
    by (simp add: photonSurface_def Let_def newPhotons_addPhoton)
  have d: "isPureSpecular E (bsdf (v_info v)) \<longrightarrow>
        surfaceRange (flowState (photonBody E cfg v)) = surfaceRange v"
    using photonBody_passOK [of E v cfg] by (simp add: passOK_def)
  have e: "(\<forall>b. isPureSpecular E b) \<and> tracePhoton E cfg sr vr pr smp = (sr', vr', pr', smp') \<longrightarrow>
        sr' = sr"
    using tracePhoton_run [of E cfg sr vr pr smp sr' vr' pr' smp'] by blast
  show ?thesis
    using a b c d e photonBody_vacuum [of v E cfg] by blast
qed

text \<open>
  On the tilted plane the stored power is 4/5 of the throughput. On the purely specular
  BSDF 1 the surface range stays empty and the path photon is stored all the same.
\<close>

theorem surface_deposit_witness:
  "newPhotons (surfaceRange (demoPhotonVars None))
        (surfaceRange (photonSurface (demoEnv 0) (demoPhotonVars None)))
     = [\<lparr>pos = vec3 0 0 1, dir = vec3 0 0 1, power = vec3 (4 / 5) (4 / 5) (4 / 5), bounce = 0\<rparr>]
   \<and> isPureSpecular (demoEnv 1) (bsdf (v_info ((demoPhotonVars None)\<lparr>v_info := demoInfo 1\<rparr>)))
   \<and> surfaceRange (photonSurface (demoEnv 1) ((demoPhotonVars None)\<lparr>v_info := demoInfo 1\<rparr>))
       = emptyRange (demoPhoton 9) 2
   \<and> newPhotons (pathRange ((demoPhotonVars None)\<lparr>v_info := demoInfo 1\<rparr>))
        (pathRange (photonSurface (demoEnv 1) ((demoPhotonVars None)\<lparr>v_info := demoInfo 1\<rparr>)))
     = [(demoPathPhoton 0)\<lparr>pp_pos := vec3 0 0 1, pp_power := vec3 1 1 1, pp_data := (0, False)\<rparr>]
   \<and> surfaceRange (flowState (photonBody (demoEnv 1) demoSettings
         ((demoPhotonVars None)\<lparr>v_info := demoInfo 1\<rparr>))) = emptyRange (demoPhoton 9) 2
   \<and> newPhotons (emptyRange (demoPhoton 9) 2)
        (surfaceRange (flowState (photonBody (demoEnv 0) demoSettings (demoPhotonVars None))))
     = [\<lparr>pos = vec3 0 0 1, dir = vec3 0 0 1, power = vec3 (4 / 5) (4 / 5) (4 / 5), bounce = 1\<rparr>]
   \<and> fst (tracePhoton ((demoEnv 1)\<lparr>isPureSpecular := \<lambda>b. True\<rparr>) demoSettings
         (emptyRange (demoPhoton 9) 2) (emptyRange (demoVolumePhoton 9) 2)
         (emptyRange (demoPathPhoton 9) 3) 0) = emptyRange (demoPhoton 9) 2"
proof -
  let ?v = "demoPhotonVars None"
  let ?u = "(demoPhotonVars None)\<lparr>v_info := demoInfo 1\<rparr>"
  let ?E = "(demoEnv 1)\<lparr>isPureSpecular := \<lambda>b. True\<rparr>"
  have v: "v_hitSurface ?v" "\<not> isPureSpecular (demoEnv 0) (bsdf (v_info ?v))"
          "\<not> full (surfaceRange ?v)" "v_medium ?v = None"
          "surfaceRange ?v = emptyRange (demoPhoton 9) 2"
    by (simp_all add: demoPhotonVars_def demo_defs full_def capacity_def)
  have u: "v_hitSurface ?u" "isPureSpecular (demoEnv 1) (bsdf (v_info ?u))"
          "\<not> full (pathRange ?u)" "surfaceRange ?u = emptyRange (demoPhoton 9) 2"
    by (simp_all add: demoPhotonVars_def demo_defs full_def capacity_def)
  note Tv = surface_deposit [where v = ?v and E = "demoEnv 0" and cfg = demoSettings]
  note Tu = surface_deposit [where v = ?u and E = "demoEnv 1" and cfg = demoSettings]
  obtain sr' vr' pr' smp' where run: "tracePhoton ?E demoSettings
         (emptyRange (demoPhoton 9) 2) (emptyRange (demoVolumePhoton 9) 2)
         (emptyRange (demoPathPhoton 9) 3) 0 = (sr', vr', pr', smp')"
    using prod_cases4 by blast
  have spec: "\<forall>b. isPureSpecular ?E b"
    by simp
  have c1: "newPhotons (surfaceRange ?v) (surfaceRange (photonSurface (demoEnv 0) ?v))
     = [\<lparr>pos = vec3 0 0 1, dir = vec3 0 0 1, power = vec3 (4 / 5) (4 / 5) (4 / 5), bounce = 0\<rparr>]"
    using Tv v by (simp add: demoPhotonVars_def demo_defs vec_defs)
  have c3: "surfaceRange (photonSurface (demoEnv 1) ?u) = emptyRange (demoPhoton 9) 2"
    using Tu u by metis
  have c4: "newPhotons (pathRange ?u) (pathRange (photonSurface (demoEnv 1) ?u))
     = [(demoPathPhoton 0)\<lparr>pp_pos := vec3 0 0 1, pp_power := vec3 1 1 1, pp_data := (0, False)\<rparr>]"
    using Tu u by (simp add: demoPhotonVars_def demo_defs vec_defs setPathInfo_def)
  have c5: "surfaceRange (flowState (photonBody (demoEnv 1) demoSettings ?u)) = emptyRange (demoPhoton 9) 2"
    using Tu u by metis
  have "surfaceRange (flowState (photonBody (demoEnv 0) demoSettings ?v))
          = surfaceRange (photonSurface (demoEnv 0) (?v\<lparr>v_bounce := v_bounce ?v + 1\<rparr>))"
    using Tv v by blast
  then have c6: "newPhotons (emptyRange (demoPhoton 9) 2)
        (surfaceRange (flowState (photonBody (demoEnv 0) demoSettings ?v)))
     = [\<lparr>pos = vec3 0 0 1, dir = vec3 0 0 1, power = vec3 (4 / 5) (4 / 5) (4 / 5), bounce = 1\<rparr>]"
    by (simp add: photonSurface_def newPhotons_def deposited_def addPhoton_def full_def capacity_def
                  Let_def demoPhotonVars_def demo_defs vec_defs eval_nat_numeral)
  have c7: "sr' = emptyRange (demoPhoton 9) 2"
    using surface_deposit [where E = ?E and cfg = demoSettings and sr = "emptyRange (demoPhoton 9) 2"
        and vr = "emptyRange (demoVolumePhoton 9) 2" and pr = "emptyRange (demoPathPhoton 9) 3"
        and smp = 0 and sr' = sr' and vr' = vr' and pr' = pr' and smp' = smp'] spec run
    by blast
  show ?thesis
    using c1 u(2) c3 c4 c5 c6 c7 run by simp
qed

section \<open>The flag of the path photons\<close>

text \<open>
  Claim C10. Every path photon that a call of \<open>tracePhoton\<close> deposits (at the emission
  point, at a scattering point in a medium, at a surface hit) has the flag of its encoded
  pair set to false.
\<close>

theorem path_photons_unflagged:
  assumes "tracePhoton E cfg sr vr pr smp = (sr', vr', pr', smp')"
  shows "\<forall>p\<in>set (newPhotons pr pr'). \<not> pp_flag p"
  using tracePhoton_run [OF assms] by (simp add: list_all_iff)

text \<open>
  A light inside the medium, with slots whose flag was set before: the three path photons
  deposited (emission point and two scattering points) have it cleared.
\<close>

theorem path_photons_unflagged_witness:
  "tracePhoton (demoEnv 0) demoSettings (emptyRange (demoPhoton 9) 2)
       (emptyRange (demoVolumePhoton 9) 2) (emptyRange ((demoPathPhoton 9)\<lparr>pp_data := (9, True)\<rparr>) 3) 1
     = (emptyRange (demoPhoton 9) 2,
        \<lparr>storage = [(demoVolumePhoton 1)\<lparr>pos := vec3 0 0 (1 / 2), power := vec3 2 2 2\<rparr>,
                    (demoVolumePhoton 2)\<lparr>pos := vec3 0 0 (1 / 2), power := vec3 2 2 2\<rparr>],
         count = 2\<rparr>,
        \<lparr>storage = [(demoPathPhoton 0)\<lparr>pp_pos := vec3 0 0 0, pp_power := vec3 2 2 2, pp_data := (0, False)\<rparr>,
                    (demoPathPhoton 0)\<lparr>pp_pos := vec3 0 0 (1 / 2), pp_power := vec3 2 2 2, pp_data := (1, False)\<rparr>,
                    (demoPathPhoton 0)\<lparr>pp_pos := vec3 0 0 (1 / 2), pp_power := vec3 2 2 2, pp_data := (2, False)\<rparr>],
         count = 3\<rparr>, 1)
   \<and> length (newPhotons (emptyRange ((demoPathPhoton 9)\<lparr>pp_data := (9, True)\<rparr>) 3)
        \<lparr>storage = [(demoPathPhoton 0)\<lparr>pp_pos := vec3 0 0 0, pp_power := vec3 2 2 2, pp_data := (0, False)\<rparr>,
                    (demoPathPhoton 0)\<lparr>pp_pos := vec3 0 0 (1 / 2), pp_power := vec3 2 2 2, pp_data := (1, False)\<rparr>,
                    (demoPathPhoton 0)\<lparr>pp_pos := vec3 0 0 (1 / 2), pp_power := vec3 2 2 2, pp_data := (2, False)\<rparr>],
         count = 3\<rparr>) = 3
   \<and> pp_flag ((demoPathPhoton 9)\<lparr>pp_data := (9, True)\<rparr>)
   \<and> \<not> pp_flag ((demoPathPhoton 0)\<lparr>pp_pos := vec3 0 0 (1 / 2), pp_power := vec3 2 2 2, pp_data := (2, False)\<rparr>)"
proof -
  let ?vr = "\<lparr>storage = [(demoVolumePhoton 1)\<lparr>pos := vec3 0 0 (1 / 2), power := vec3 2 2 2\<rparr>,
                    (demoVolumePhoton 2)\<lparr>pos := vec3 0 0 (1 / 2), power := vec3 2 2 2\<rparr>],
         count = 2\<rparr>"
  let ?p2 = "(demoPathPhoton 0)\<lparr>pp_pos := vec3 0 0 (1 / 2), pp_power := vec3 2 2 2, pp_data := (2, False)\<rparr>"
  let ?pr = "\<lparr>storage = [(demoPathPhoton 0)\<lparr>pp_pos := vec3 0 0 0, pp_power := vec3 2 2 2, pp_data := (0, False)\<rparr>,
                    (demoPathPhoton 0)\<lparr>pp_pos := vec3 0 0 (1 / 2), pp_power := vec3 2 2 2, pp_data := (1, False)\<rparr>,
                    ?p2],
         count = 3\<rparr>"
  have run: "tracePhoton (demoEnv 0) demoSettings (emptyRange (demoPhoton 9) 2)
       (emptyRange (demoVolumePhoton 9) 2) (emptyRange ((demoPathPhoton 9)\<lparr>pp_data := (9, True)\<rparr>) 3) 1
     = (emptyRange (demoPhoton 9) 2, ?vr, ?pr, 1)"
    by (simp add: photon_defs tracePhotonLoop.simps vec_defs demo_defs eval_nat_numeral)
  have new: "newPhotons (emptyRange ((demoPathPhoton 9)\<lparr>pp_data := (9, True)\<rparr>) 3) ?pr = storage ?pr"
    by (simp add: newPhotons_def deposited_def emptyRange_def)
  have "?p2 \<in> set (newPhotons (emptyRange ((demoPathPhoton 9)\<lparr>pp_data := (9, True)\<rparr>) 3) ?pr)"
    unfolding new by simp
  then have "\<not> pp_flag ?p2"
    using path_photons_unflagged [OF run] by blast
  moreover have "pp_flag ((demoPathPhoton 9)\<lparr>pp_data := (9, True)\<rparr>)"
    by (simp add: pp_flag_def demoPathPhoton_def)
  ultimately show ?thesis
    using run new by simp
qed

section \<open>The bounce index of a photon\<close>

text \<open>
  Claim C5. Once the light has given an emission point and a direction, \<open>tracePhoton\<close>
  starts with the bounce counter at 0 and, if the path range is not full, has recorded one
  path photon there, at the emission point, with the initial throughput and bounce index 0.
  Every pass through the loop body adds exactly one to the counter, whether it ends in the
  medium block or at a surface. So after \<open>k\<close> complete passes the counter is \<open>k\<close> (and
  the loop goes on from there), and every surface photon and every volume photon deposited
  in the next pass stores \<open>k + 1\<close>, the number of scattering interactions up to and
  including its own: 1 at the first.
\<close>

theorem bounce_counter:
  "(chooseLightAdjoint E smp = (light, lightPdf, s1)
      \<and> samplePosition E light s1 = (Some point, s2)
      \<and> sampleDirection E light s2 point = (Some direction, s3) \<and> \<not> full pr \<longrightarrow>
      (\<exists>v0. photonStart E sr vr pr smp = (Some v0, s3) \<and> v_bounce v0 = 0
            \<and> newPhotons pr (pathRange v0) =
                [setPathInfo 0 False
                   ((storage pr ! count pr)
                      \<lparr>pp_pos := ps_p point,
                       pp_power := vdivs (vmul (ps_weight point) (ds_weight direction)) lightPdf\<rparr>)]))
   \<and> v_bounce (flowState (photonBody E cfg v)) = v_bounce v + 1
   \<and> (photonStart E sr vr pr smp = (Some v0, s) \<and> photonAfter E cfg k v0 = Some vk \<longrightarrow>
        v_bounce vk = int k
        \<and> tracePhotonLoop E cfg v0 = tracePhotonLoop E cfg vk
        \<and> (\<forall>p\<in>set (newPhotons (surfaceRange vk) (surfaceRange (flowState (photonBody E cfg vk)))).
              bounce p = int k + 1)
        \<and> (\<forall>p\<in>set (newPhotons (volumeRange vk) (volumeRange (flowState (photonBody E cfg vk)))).
              bounce p = int k + 1))"
proof -
  have a: "chooseLightAdjoint E smp = (light, lightPdf, s1)
      \<and> samplePosition E light s1 = (Some point, s2)
      \<and> sampleDirection E light s2 point = (Some direction, s3) \<and> \<not> full pr \<longrightarrow>
      (\<exists>v0. photonStart E sr vr pr smp = (Some v0, s3) \<and> v_bounce v0 = 0
            \<and> newPhotons pr (pathRange v0) =
                [setPathInfo 0 False
                   ((storage pr ! count pr)
                      \<lparr>pp_pos := ps_p point,
                       pp_power := vdivs (vmul (ps_weight point) (ds_weight direction)) lightPdf\<rparr>)])"
    by (auto simp: photonStart_def Let_def newPhotons_addPhoton split: prod.splits)
  have c: "photonStart E sr vr pr smp = (Some v0, s) \<and> photonAfter E cfg k v0 = Some vk \<longrightarrow>
        v_bounce vk = int k
        \<and> tracePhotonLoop E cfg v0 = tracePhotonLoop E cfg vk
        \<and> (\<forall>p\<in>set (newPhotons (surfaceRange vk) (surfaceRange (flowState (photonBody E cfg vk)))).
              bounce p = int k + 1)
        \<and> (\<forall>p\<in>set (newPhotons (volumeRange vk) (volumeRange (flowState (photonBody E cfg vk)))).
              bounce p = int k + 1)"
  proof (intro impI, elim conjE)
    assume st: "photonStart E sr vr pr smp = (Some v0, s)" and af: "photonAfter E cfg k v0 = Some vk"
    have b0: "v_bounce v0 = 0"
      using photonStart_ranges [OF st] by simp
    have bk: "v_bounce vk = int k" "tracePhotonLoop E cfg v0 = tracePhotonLoop E cfg vk"
      using photonAfter_bounce [OF af] b0 by simp_all
    show "v_bounce vk = int k
        \<and> tracePhotonLoop E cfg v0 = tracePhotonLoop E cfg vk
        \<and> (\<forall>p\<in>set (newPhotons (surfaceRange vk) (surfaceRange (flowState (photonBody E cfg vk)))).
              bounce p = int k + 1)
        \<and> (\<forall>p\<in>set (newPhotons (volumeRange vk) (volumeRange (flowState (photonBody E cfg vk)))).
              bounce p = int k + 1)"
      using bk photonBody_passOK [of E vk cfg] by (simp add: passOK_def list_all_iff)
  qed
  show ?thesis
    using a c photonBody_bounce_flowState [of E cfg v] by blast
qed

text \<open>
  A light in vacuum facing the plane: the emission record has index 0, the surface photon
  of the first pass 1, that of the second pass 2. A light inside the medium: the volume
  photon of the second pass has index 2.
\<close>

theorem bounce_counter_witness:
  "photonStart (demoEnv 0) (emptyRange (demoPhoton 9) 4) (emptyRange (demoVolumePhoton 9) 4)
       (emptyRange (demoPathPhoton 9) 4) 0 = (Some (demoStart 0), 0)
   \<and> v_bounce (demoStart 0) = 0
   \<and> newPhotons (emptyRange (demoPathPhoton 9) 4) (pathRange (demoStart 0))
       = [(demoPathPhoton 0)\<lparr>pp_pos := vec3 0 0 0, pp_power := vec3 2 2 2, pp_data := (0, False)\<rparr>]
   \<and> photonAfter (demoEnv 0) demoSettings 1 (demoStart 0) = Some (demoSecond 0)
   \<and> v_bounce (demoSecond 0) = 1
   \<and> map bounce (newPhotons (surfaceRange (demoStart 0))
        (surfaceRange (flowState (photonBody (demoEnv 0) demoSettings (demoStart 0))))) = [1]
   \<and> map bounce (newPhotons (surfaceRange (demoSecond 0))
        (surfaceRange (flowState (photonBody (demoEnv 0) demoSettings (demoSecond 0))))) = [2]
   \<and> photonAfter (demoEnv 0) demoSettings 1 (demoStart 1) = Some (demoSecond 1)
   \<and> map bounce (newPhotons (volumeRange (demoSecond 1))
        (volumeRange (flowState (photonBody (demoEnv 0) demoSettings (demoSecond 1))))) = [2]"
proof -
  let ?sr = "emptyRange (demoPhoton 9) 4" and ?vr = "emptyRange (demoVolumePhoton 9) 4"
  let ?pr = "emptyRange (demoPathPhoton 9) 4"
  let ?E = "demoEnv 0"
  have light: "chooseLightAdjoint ?E 0 = (0, Finite 1, 0)"
      "samplePosition ?E 0 0 = (Some \<lparr>ps_p = vec3 0 0 0, ps_weight = vec3 1 1 1\<rparr>, 0)"
      "sampleDirection ?E 0 0 \<lparr>ps_p = vec3 0 0 0, ps_weight = vec3 1 1 1\<rparr>
         = (Some \<lparr>ds_d = vec3 0 0 1, ds_weight = vec3 2 2 2\<rparr>, 0)"
      "\<not> full ?pr"
    by (simp_all add: demoEnv_def full_def capacity_def emptyRange_def)
  have st: "photonStart ?E ?sr ?vr ?pr smp = (Some (demoStart smp), smp)" for smp
    by (simp add: demoStart_def photonStart_def demoEnv_def Let_def split: prod.splits)
  have af: "photonAfter ?E demoSettings 1 (demoStart smp) = Some (demoSecond smp)" for smp
    by (simp add: demoSecond_def demoStart_def photon_defs vec_defs demo_defs eval_nat_numeral)
  note T0 = bounce_counter [where E = ?E and cfg = demoSettings and sr = ?sr and vr = ?vr and pr = ?pr
      and smp = 0 and light = 0 and lightPdf = "Finite 1" and ?s1.0 = 0 and ?s2.0 = 0 and ?s3.0 = 0
      and point = "\<lparr>ps_p = vec3 0 0 0, ps_weight = vec3 1 1 1\<rparr>"
      and direction = "\<lparr>ds_d = vec3 0 0 1, ds_weight = vec3 2 2 2\<rparr>"
      and ?v0.0 = "demoStart 0" and s = 0]
  have c0: "v_bounce (demoStart 0) = 0
      \<and> newPhotons ?pr (pathRange (demoStart 0))
          = [(demoPathPhoton 0)\<lparr>pp_pos := vec3 0 0 0, pp_power := vec3 2 2 2, pp_data := (0, False)\<rparr>]"
    using T0 [where k = 0 and vk = "demoStart 0"] light st [of 0]
    by (simp add: setPathInfo_def emptyRange_def demoPathPhoton_def vec_defs eval_nat_numeral)
  have c1: "\<forall>p\<in>set (newPhotons (surfaceRange (demoStart 0))
        (surfaceRange (flowState (photonBody ?E demoSettings (demoStart 0))))). bounce p = int 0 + 1"
    using T0 [where k = 0 and vk = "demoStart 0"] st [of 0] by simp
  have c2: "v_bounce (demoSecond 0) = int 1
     \<and> (\<forall>p\<in>set (newPhotons (surfaceRange (demoSecond 0))
        (surfaceRange (flowState (photonBody ?E demoSettings (demoSecond 0))))). bounce p = int 1 + 1)"
    using T0 [where k = 1 and vk = "demoSecond 0"] st [of 0] af [of 0] by blast
  have c3: "\<forall>p\<in>set (newPhotons (volumeRange (demoSecond 1))
        (volumeRange (flowState (photonBody ?E demoSettings (demoSecond 1))))). bounce p = int 1 + 1"
    using bounce_counter [where E = ?E and cfg = demoSettings and sr = ?sr and vr = ?vr and pr = ?pr
      and smp = 1 and ?v0.0 = "demoStart 1" and s = 1 and k = 1 and vk = "demoSecond 1"]
      st [of 1] af [of 1] by blast
  have l1: "length (newPhotons (surfaceRange (demoStart 0))
        (surfaceRange (flowState (photonBody ?E demoSettings (demoStart 0))))) = 1"
    by (simp add: demoStart_def photon_defs newPhotons_def deposited_def vec_defs demo_defs
                  eval_nat_numeral)
  have l2: "length (newPhotons (surfaceRange (demoSecond 0))
        (surfaceRange (flowState (photonBody ?E demoSettings (demoSecond 0))))) = 1"
    by (simp add: demoSecond_def demoStart_def photon_defs newPhotons_def deposited_def vec_defs
                  demo_defs eval_nat_numeral)
  have l3: "length (newPhotons (volumeRange (demoSecond 1))
        (volumeRange (flowState (photonBody ?E demoSettings (demoSecond 1))))) = 1"
    by (simp add: demoSecond_def demoStart_def photon_defs newPhotons_def deposited_def vec_defs
                  demo_defs eval_nat_numeral)
  have one: "length xs = 1 \<Longrightarrow> \<forall>p\<in>set xs. bounce p = n \<Longrightarrow> map bounce xs = [n]"
    for xs :: "'a Photon_scheme list" and n
    by (cases xs) auto
  show ?thesis
    using st [of 0] c0 af [of 0] af [of 1] c2 one [OF l1 c1] one [OF l2 conjunct2 [OF c2]]
          one [OF l3 c3]
    by simp
qed

section \<open>Termination of the two loops\<close>

text \<open>
  Claim C6. Both loops are total functions of the model: each pass adds one to the bounce
  counter and the loop condition bounds it. The body of the photon loop is entered at most
  \<open>maxBounces - 1 - bounce\<close> times from a state with counter \<open>bounce\<close>, that of the
  camera loop at most \<open>maxBounces - bounce\<close> times, and not at all if that number is
  negative; the counter at the end is the counter at the start plus the number of passes.
  Both functions start their loop with the counter at 0: at most \<open>maxBounces - 1\<close> passes
  in \<open>tracePhoton\<close> and at most \<open>maxBounces\<close> in \<open>traceSample\<close>.
\<close>

theorem loops_terminate:
  "int (tracePhotonIters E cfg v) \<le> max 0 (maxBounces cfg - 1 - v_bounce v)
   \<and> v_bounce (tracePhotonLoop E cfg v) = v_bounce v + int (tracePhotonIters E cfg v)
   \<and> (photonStart E sr vr pr smp = (Some v0, s) \<longrightarrow>
        int (tracePhotonIters E cfg v0) \<le> max 0 (maxBounces cfg - 1))
   \<and> int (traceSampleIters E cfg args u) \<le> max 0 (maxBounces cfg - s_bounce u)
   \<and> s_bounce (traceSampleLoop E cfg args u) = s_bounce u + int (traceSampleIters E cfg args u)
   \<and> (sampleStart E args smp = Some u0 \<longrightarrow>
        int (traceSampleIters E cfg args u0) \<le> max 0 (maxBounces cfg))"
proof -
  have a: "photonStart E sr vr pr smp = (Some v0, s) \<longrightarrow>
        int (tracePhotonIters E cfg v0) \<le> max 0 (maxBounces cfg - 1)"
    using photonStart_ranges [of E sr vr pr smp v0 s] tracePhotonIters_bound [of E cfg v0]
    by auto
  have b: "sampleStart E args smp = Some u0 \<longrightarrow>
        int (traceSampleIters E cfg args u0) \<le> max 0 (maxBounces cfg)"
    using sampleStart_bounce [of E args smp u0] traceSampleIters_bound [of E cfg args u0]
    by auto
  show ?thesis
    using a b tracePhotonIters_bound [of E cfg v] traceSampleIters_bound [of E cfg args u]
    by blast
qed

text \<open>
  With \<open>maxBounces = 3\<close>: two passes of the photon loop, and three of the camera loop on
  a camera path that passes straight through the plane each time.
\<close>

theorem loops_terminate_witness:
  "photonStart (demoEnv 0) (emptyRange (demoPhoton 9) 4) (emptyRange (demoVolumePhoton 9) 4)
       (emptyRange (demoPathPhoton 9) 4) 0 = (Some (demoStart 0), 0)
   \<and> tracePhotonIters (demoEnv 0) demoSettings (demoStart 0) = 2
   \<and> int (tracePhotonIters (demoEnv 0) demoSettings (demoStart 0)) \<le> max 0 (maxBounces demoSettings - 1)
   \<and> sampleStart (demoEnv 0) demoArgs 0 = Some demoCamera
   \<and> traceSampleIters (demoEnv 0) demoSettings demoArgs demoCamera = 3
   \<and> int (traceSampleIters (demoEnv 0) demoSettings demoArgs demoCamera) \<le> max 0 (maxBounces demoSettings)"
proof -
  have st: "photonStart (demoEnv 0) (emptyRange (demoPhoton 9) 4) (emptyRange (demoVolumePhoton 9) 4)
       (emptyRange (demoPathPhoton 9) 4) 0 = (Some (demoStart 0), 0)"
    by (simp add: demoStart_def photonStart_def demoEnv_def Let_def split: prod.splits)
  have cam: "sampleStart (demoEnv 0) demoArgs 0 = Some demoCamera"
    by (simp add: demoCamera_def sampleStart_def demoEnv_def)
  note T = loops_terminate [where E = "demoEnv 0" and cfg = demoSettings
      and sr = "emptyRange (demoPhoton 9) 4" and vr = "emptyRange (demoVolumePhoton 9) 4"
      and pr = "emptyRange (demoPathPhoton 9) 4" and smp = 0 and ?v0.0 = "demoStart 0" and s = 0
      and args = demoArgs and ?u0.0 = demoCamera]
  have b1: "int (tracePhotonIters (demoEnv 0) demoSettings (demoStart 0)) \<le> max 0 (maxBounces demoSettings - 1)"
    using T st by blast
  have b2: "int (traceSampleIters (demoEnv 0) demoSettings demoArgs demoCamera) \<le> max 0 (maxBounces demoSettings)"
    using T cam by blast
  have n1: "tracePhotonIters (demoEnv 0) demoSettings (demoStart 0) = 2"
    by (simp add: demoStart_def photon_defs tracePhotonIters.simps vec_defs demo_defs eval_nat_numeral)
  have n2: "traceSampleIters (demoEnv 0) demoSettings demoArgs demoCamera = 3"
    by (simp add: demoCamera_def demoArgs_def sample_defs traceSampleIters.simps vec_defs demo_defs
                  eval_nat_numeral)
  show ?thesis
    using st cam b1 b2 n1 n2 by blast
qed

section \<open>The surface interaction of the camera path\<close>

text \<open>
  Claim C7. At a surface hit of the camera loop the forward transparency is evaluated and
  the sample stream is asked \<open>nextBoolean\<close> with its component average. If the answer is
  true the path goes straight on, along the direction of the ray, and the throughput is
  multiplied by the transparency divided by that average. If it is false a sample of the
  BSDF is requested with the specular lobe: when it fails the body breaks, the loop ends
  with the throughput as it was; when it succeeds the new direction is the sampled one and
  the throughput is multiplied by the weight of the sample. Either way the throughput with
  which the pass ends is the one the interaction gave. For a path in vacuum that has a hit,
  the pass is this surface step after the increment of the counter.
\<close>

theorem transparency_or_specular:
  assumes "event = makeLocalScatterEvent E (s_data v) (s_info v) (s_ray v)"
    and "transparency = bsdfEval E (bsdf (s_info v)) (makeForwardEvent E event) False"
  shows "(nextBoolean E (s_sampler v) (vavg transparency) = (True, smp) \<longrightarrow>
            sampleInteract E v =
              Go (rdir (s_ray v),
                  vmul (s_throughput v) (vdivs transparency (vavg transparency)), smp))
       \<and> (nextBoolean E (s_sampler v) (vavg transparency) = (False, smp)
            \<and> bsdfSample E (bsdf (s_info v)) (event\<lparr>requestedLobe := SpecularLobe\<rparr>) False smp
                = (False, ev', smp') \<longrightarrow>
            sampleInteract E v = Break smp'
            \<and> sampleSurface E cfg v = Break (v\<lparr>s_sampler := smp'\<rparr>))
       \<and> (nextBoolean E (s_sampler v) (vavg transparency) = (False, smp)
            \<and> bsdfSample E (bsdf (s_info v)) (event\<lparr>requestedLobe := SpecularLobe\<rparr>) False smp
                = (True, ev', smp') \<longrightarrow>
            sampleInteract E v =
              Go (toGlobal E (frame ev') (wo ev'), vmul (s_throughput v) (weight ev'), smp'))
       \<and> (sampleInteract E v = Go (w, t, smp'') \<longrightarrow>
            s_throughput (flowState (sampleSurface E cfg v)) = t)
       \<and> (s_medium v = None \<and> s_didHit v \<longrightarrow>
            sampleBody E cfg args v = sampleSurface E cfg (v\<lparr>s_bounce := s_bounce v + 1\<rparr>))
       \<and> (sampleCond cfg v \<and> sampleBody E cfg args v = Break v' \<longrightarrow>
            traceSampleLoop E cfg args v = v')"
  using assms
  by (auto simp: sampleInteract_def sampleSurface_def sampleBody_def Let_def
                 traceSampleLoop.simps [of E cfg args v]
           split: prod.splits)

text \<open>
  On the half transparent BSDF 0 (average 1/2) the path passes through and the throughput
  \<open>(1, 1, 1)\<close> becomes \<open>(1/2, 1, 3/2)\<close>; on BSDF 2 (no transparency, no specular lobe)
  the sample fails and the loop ends in its first pass; on the specular BSDF 1 the sample
  succeeds with weight 3.
\<close>

theorem transparency_or_specular_witness:
  "nextBoolean (demoEnv 0) 0 (vavg (vec3 (1 / 4) (1 / 2) (3 / 4))) = (True, 0)
   \<and> sampleInteract (demoEnv 0) (demoSampleVars 0) = Go (vec3 1 0 0, vec3 (1 / 2) 1 (3 / 2), 0)
   \<and> nextBoolean (demoEnv 2) 0 (vavg (vec3 0 0 0)) = (False, 0)
   \<and> sampleInteract (demoEnv 2) (demoSampleVars 2) = Break 1
   \<and> sampleSurface (demoEnv 2) demoSettings (demoSampleVars 2) = Break ((demoSampleVars 2)\<lparr>s_sampler := 1\<rparr>)
   \<and> traceSampleLoop (demoEnv 2) demoSettings demoArgs (demoSampleVars 2)
       = (demoSampleVars 2)\<lparr>s_bounce := 2, s_sampler := 1\<rparr>
   \<and> sampleInteract (demoEnv 1) (demoSampleVars 1) = Go (vec3 0 0 (- 1), vec3 3 3 3, 1)
   \<and> s_throughput (flowState (sampleSurface (demoEnv 1) demoSettings (demoSampleVars 1))) = vec3 3 3 3"
proof -
  have ev: "demoEvent = makeLocalScatterEvent (demoEnv b) (s_data (demoSampleVars b))
                (s_info (demoSampleVars b)) (s_ray (demoSampleVars b))" for b
    by (simp add: demoEnv_def)
  have tr0: "vec3 (1 / 4) (1 / 2) (3 / 4) = bsdfEval (demoEnv 0) (bsdf (s_info (demoSampleVars 0)))
                (makeForwardEvent (demoEnv 0) demoEvent) False"
    by (simp add: demoEnv_def demoSampleVars_def demoInfo_def)
  have tr: "b \<noteq> 0 \<Longrightarrow> vec3 0 0 0 = bsdfEval (demoEnv b) (bsdf (s_info (demoSampleVars b)))
                (makeForwardEvent (demoEnv b) demoEvent) False" for b
    by (simp add: demoEnv_def demoSampleVars_def demoInfo_def)
  have nb0: "nextBoolean (demoEnv 0) (s_sampler (demoSampleVars 0)) (vavg (vec3 (1 / 4) (1 / 2) (3 / 4)))
              = (True, 0)"
    by (simp add: demoEnv_def demoSampleVars_def vec_defs)
  have nb: "nextBoolean (demoEnv b) (s_sampler (demoSampleVars b)) (vavg (vec3 0 0 0)) = (False, 0)" for b
    by (simp add: demoEnv_def demoSampleVars_def vec_defs)
  have bs2: "bsdfSample (demoEnv 2) (bsdf (s_info (demoSampleVars 2)))
               (demoEvent\<lparr>requestedLobe := SpecularLobe\<rparr>) False 0
             = (False, demoEvent\<lparr>requestedLobe := SpecularLobe, wo := vec3 0 0 (- 1), weight := vec3 3 3 3\<rparr>, 1)"
    by (simp add: demoEnv_def demoSampleVars_def demoInfo_def)
  have bs1: "bsdfSample (demoEnv 1) (bsdf (s_info (demoSampleVars 1)))
               (demoEvent\<lparr>requestedLobe := SpecularLobe\<rparr>) False 0
             = (True, demoEvent\<lparr>requestedLobe := SpecularLobe, wo := vec3 0 0 (- 1), weight := vec3 3 3 3\<rparr>, 1)"
    by (simp add: demoEnv_def demoSampleVars_def demoInfo_def)
  have two: "(2::nat) \<noteq> 0" and one: "(1::nat) \<noteq> 0"
    by simp_all
  note T0 = transparency_or_specular [OF ev [of 0] tr0, where smp = 0]
  note T2 = transparency_or_specular [OF ev [of 2] tr [OF two], where smp = 0 and smp' = 1
      and ev' = "demoEvent\<lparr>requestedLobe := SpecularLobe, wo := vec3 0 0 (- 1), weight := vec3 3 3 3\<rparr>"
      and cfg = demoSettings and args = demoArgs]
  note T1 = transparency_or_specular [OF ev [of 1] tr [OF one], where smp = 0 and smp' = 1
      and ev' = "demoEvent\<lparr>requestedLobe := SpecularLobe, wo := vec3 0 0 (- 1), weight := vec3 3 3 3\<rparr>"
      and cfg = demoSettings]
  have c0: "sampleInteract (demoEnv 0) (demoSampleVars 0) = Go (vec3 1 0 0, vec3 (1 / 2) 1 (3 / 2), 0)"
    using T0 nb0 by (simp add: demoSampleVars_def demoRay_def vec_defs)
  have c2: "sampleInteract (demoEnv 2) (demoSampleVars 2) = Break 1
            \<and> sampleSurface (demoEnv 2) demoSettings (demoSampleVars 2)
                = Break ((demoSampleVars 2)\<lparr>s_sampler := 1\<rparr>)"
    using T2 nb [of 2] bs2 by simp
  have body: "sampleBody (demoEnv 2) demoSettings demoArgs (demoSampleVars 2)
              = Break ((demoSampleVars 2)\<lparr>s_bounce := 2, s_sampler := 1\<rparr>)"
    by (simp add: sample_defs demoSampleVars_def demoArgs_def vec_defs demo_defs)
  have cond: "sampleCond demoSettings (demoSampleVars 2)"
    by (simp add: sampleCond_def demoSampleVars_def demoSettings_def)
  have c3: "traceSampleLoop (demoEnv 2) demoSettings demoArgs (demoSampleVars 2)
       = (demoSampleVars 2)\<lparr>s_bounce := 2, s_sampler := 1\<rparr>"
    using T2 [where v' = "(demoSampleVars 2)\<lparr>s_bounce := 2, s_sampler := 1\<rparr>"] body cond by blast
  have c1: "sampleInteract (demoEnv 1) (demoSampleVars 1) = Go (vec3 0 0 (- 1), vec3 3 3 3, 1)"
    using T1 nb [of 1] bs1 by (simp add: demoEnv_def demoSampleVars_def vec_defs)
  have c4: "s_throughput (flowState (sampleSurface (demoEnv 1) demoSettings (demoSampleVars 1))) = vec3 3 3 3"
    using T1 [where w = "vec3 0 0 (- 1)" and t = "vec3 3 3 3" and smp'' = 1] c1 by blast
  show ?thesis
    using nb0 c0 nb [of 2] c2 c3 c1 c4 by (simp add: demoSampleVars_def)
qed

section \<open>The beam estimator\<close>

lemma sqrt_16_25: "sqrt (16 / 25) = 4 / 5"
  by (rule real_sqrt_unique) (simp_all add: power2_eq_square)

text \<open>
  Claim C8. One call of the visitor of the beam query, on the pair \<open>p0 = photons i\<close> and
  \<open>p1 = photons (i + 1)\<close>. Whether the segment is accepted is \<open>beamAccepted\<close> at the
  position, direction, length and bounce index of \<open>p0\<close>; an accepted segment adds to the
  estimate the power of \<open>p1\<close> times \<open>beamWeight\<close> at the position and direction of \<open>p0\<close>,
  and leaves the sample stream as the transmittance along the ray up to the point
  nearest to \<open>p0\<close>'s beam left it; a segment that is not accepted leaves the estimate and
  the stream as they were. So the call gives the same result for every first photon with
  these four fields, whatever its power, and every second photon with the same power,
  whatever its position, direction, length and bounce index.
\<close>

theorem beam_geometry_and_power:
  "beamVisit E cfg m photons radius b (ray, i, tMin, bounds) (est, smp) =
     (if beamAccepted cfg radius b ray bounds (pp_pos (photons i)) (pp_dir (photons i))
                      (pp_length (photons i)) (pp_bounce (photons i))
      then (vadd est (vmul (beamWeight E m radius ray smp (pp_pos (photons i)) (pp_dir (photons i)))
                           (pp_power (photons (Suc i)))),
            beamStream E m ray smp (pp_pos (photons i)) (pp_dir (photons i)))
      else (est, smp))
   \<and> (pp_pos q0 = pp_pos (photons i) \<and> pp_dir q0 = pp_dir (photons i)
      \<and> pp_length q0 = pp_length (photons i) \<and> pp_bounce q0 = pp_bounce (photons i)
      \<and> pp_power q1 = pp_power (photons (Suc i)) \<longrightarrow>
        beamVisit E cfg m (photons(i := q0, Suc i := q1)) radius b (ray, i, tMin, bounds) (est, smp)
          = beamVisit E cfg m photons radius b (ray, i, tMin, bounds) (est, smp))"
proof -
  have reading: "beamVisit E cfg m ps radius b (ray, i, tMin, bounds) (est, smp) =
     (if beamAccepted cfg radius b ray bounds (pp_pos (ps i)) (pp_dir (ps i))
                      (pp_length (ps i)) (pp_bounce (ps i))
      then (vadd est (vmul (beamWeight E m radius ray smp (pp_pos (ps i)) (pp_dir (ps i)))
                           (pp_power (ps (Suc i)))),
            beamStream E m ray smp (pp_pos (ps i)) (pp_dir (ps i)))
      else (est, smp))" for ps
    by (simp add: beamVisit_def beamAccepted_def beamWeight_def beamStream_def beamInSlab_def
                  beamSegT_def beamHitPoint_def beamRayT_def beamSeparation_def beamInvSin_def
                  Let_def split: prod.splits)
  have same: "beamVisit E cfg m (photons(i := q0, Suc i := q1)) radius b (ray, i, tMin, bounds) (est, smp)
          = beamVisit E cfg m photons radius b (ray, i, tMin, bounds) (est, smp)"
    if "pp_pos q0 = pp_pos (photons i)" "pp_dir q0 = pp_dir (photons i)"
       "pp_length q0 = pp_length (photons i)" "pp_bounce q0 = pp_bounce (photons i)"
       "pp_power q1 = pp_power (photons (Suc i))"
    unfolding reading using that by simp
  show ?thesis
    using reading [of photons] same by blast
qed

text \<open>
  The beam of \<open>beamPhotons\<close> against the camera ray, with gather radius \<open>1/4\<close> and the
  estimate at \<open>(1, 1, 1)\<close>. The segment is accepted; the extinction at \<open>(5, 0, 0)\<close> is
  \<open>(5, 1, 2)\<close>, one over the sine is \<open>5/4\<close>, the phase function gives \<open>(8/5, 4/5, 1)\<close> and
  the transmittance \<open>(5, 5, 5)\<close>, so the weight is \<open>(100, 10, 25)\<close>; with the power
  \<open>(1, 2, 3)\<close> of the second photon the estimate becomes \<open>(101, 21, 76)\<close>. It still does
  after the power of the first photon and the position, direction, length and bounce
  index of the second are changed. With the power of the second photon changed to
  \<open>(2, 2, 2)\<close> it becomes \<open>(201, 21, 51)\<close>.
\<close>

theorem beam_geometry_and_power_witness:
  "beamAccepted demoSettings (Finite (1 / 4)) 1 demoRay beamBounds (pp_pos (beamPhotons 0))
       (pp_dir (beamPhotons 0)) (pp_length (beamPhotons 0)) (pp_bounce (beamPhotons 0))
   \<and> beamWeight beamEnv 0 (Finite (1 / 4)) demoRay 0 (pp_pos (beamPhotons 0)) (pp_dir (beamPhotons 0))
       = vec3 100 10 25
   \<and> beamVisit beamEnv demoSettings 0 beamPhotons (Finite (1 / 4)) 1
       (demoRay, 0, Finite 0, beamBounds) (vec3 1 1 1, 0) = (vec3 101 21 76, 1)
   \<and> beamVisit beamEnv demoSettings 0
       (beamPhotons(0 := (beamPhotons 0)\<lparr>pp_power := vec3 9 9 9\<rparr>,
                    Suc 0 := \<lparr>pp_pos = vec3 0 0 0, pp_power = vec3 1 2 3, pp_dir = vec3 0 0 1,
                              pp_length = Finite 0, pp_data = (7, True)\<rparr>))
       (Finite (1 / 4)) 1 (demoRay, 0, Finite 0, beamBounds) (vec3 1 1 1, 0) = (vec3 101 21 76, 1)
   \<and> beamVisit beamEnv demoSettings 0 (beamPhotons(Suc 0 := (beamPhotons 1)\<lparr>pp_power := vec3 2 2 2\<rparr>))
       (Finite (1 / 4)) 1 (demoRay, 0, Finite 0, beamBounds) (vec3 1 1 1, 0) = (vec3 201 21 51, 1)"
proof -
  let ?r0 = "(beamPhotons 0)\<lparr>pp_power := vec3 9 9 9\<rparr>"
  let ?r1 = "\<lparr>pp_pos = vec3 0 0 0, pp_power = vec3 1 2 3, pp_dir = vec3 0 0 1,
              pp_length = Finite 0, pp_data = (7, True)\<rparr>"
  let ?s1 = "(beamPhotons 1)\<lparr>pp_power := vec3 2 2 2\<rparr>"
  note T = beam_geometry_and_power [where E = beamEnv and cfg = demoSettings and m = 0
      and photons = beamPhotons and radius = "Finite (1 / 4)" and b = 1 and ray = demoRay
      and i = 0 and tMin = "Finite 0" and bounds = beamBounds and est = "vec3 1 1 1" and smp = 0
      and ?q0.0 = ?r0 and ?q1.0 = ?r1]
  note U = beam_geometry_and_power [where E = beamEnv and cfg = demoSettings and m = 0
      and photons = "beamPhotons(Suc 0 := ?s1)" and radius = "Finite (1 / 4)" and b = 1
      and ray = demoRay and i = 0 and tMin = "Finite 0" and bounds = beamBounds
      and est = "vec3 1 1 1" and smp = 0]
  have acc: "beamAccepted demoSettings (Finite (1 / 4)) 1 demoRay beamBounds (pp_pos (beamPhotons 0))
       (pp_dir (beamPhotons 0)) (pp_length (beamPhotons 0)) (pp_bounce (beamPhotons 0))"
    by (simp add: beamAccepted_def beamInSlab_def beamSegT_def beamHitPoint_def beamRayT_def
                  beamSeparation_def beamInvSin_def bounceRejected_def toInt32_def pp_bounce_def
                  beamPhotons_def beamBounds_def vec_defs demo_defs sqrt_16_25)
  have wgt: "beamWeight beamEnv 0 (Finite (1 / 4)) demoRay 0 (pp_pos (beamPhotons 0))
       (pp_dir (beamPhotons 0)) = vec3 100 10 25"
    by (simp add: beamWeight_def beamHitPoint_def beamRayT_def beamInvSin_def beamEnv_def
                  beamPhotons_def vec_defs demo_defs sqrt_16_25)
  have str: "beamStream beamEnv 0 demoRay 0 (pp_pos (beamPhotons 0)) (pp_dir (beamPhotons 0)) = 1"
    by (simp add: beamStream_def beamEnv_def)
  have pw: "vadd (vec3 1 1 1) (vmul (vec3 100 10 25) (pp_power (beamPhotons (Suc 0)))) = vec3 101 21 76"
       "vadd (vec3 1 1 1) (vmul (vec3 100 10 25) (vec3 2 2 2)) = vec3 201 21 51"
    by (simp_all add: beamPhotons_def vec_defs)
  have v1: "beamVisit beamEnv demoSettings 0 beamPhotons (Finite (1 / 4)) 1
       (demoRay, 0, Finite 0, beamBounds) (vec3 1 1 1, 0) = (vec3 101 21 76, 1)"
    using T acc wgt str pw(1) by simp
  have same: "pp_pos ?r0 = pp_pos (beamPhotons 0) \<and> pp_dir ?r0 = pp_dir (beamPhotons 0)
      \<and> pp_length ?r0 = pp_length (beamPhotons 0) \<and> pp_bounce ?r0 = pp_bounce (beamPhotons 0)
      \<and> pp_power ?r1 = pp_power (beamPhotons (Suc 0))"
    by (simp add: pp_bounce_def beamPhotons_def)
  have v2: "beamVisit beamEnv demoSettings 0 (beamPhotons(0 := ?r0, Suc 0 := ?r1))
       (Finite (1 / 4)) 1 (demoRay, 0, Finite 0, beamBounds) (vec3 1 1 1, 0) = (vec3 101 21 76, 1)"
    using T same v1 by metis
  have v3: "beamVisit beamEnv demoSettings 0 (beamPhotons(Suc 0 := ?s1))
       (Finite (1 / 4)) 1 (demoRay, 0, Finite 0, beamBounds) (vec3 1 1 1, 0) = (vec3 201 21 51, 1)"
    using U acc wgt str pw(2) by simp
  show ?thesis
    using acc wgt v1 v2 v3 by blast
qed

section \<open>The division by the transparency average\<close>

lemma fdiv_zero_nonfinite: "\<not> isfinite (fdiv a (Finite 0))"
  by (cases a) auto

lemma fmul_nonfinite: "\<not> isfinite b \<Longrightarrow> \<not> isfinite (fmul a b)"
  by (cases a; cases b) auto

text \<open>
  Claim C9. In the pass-through branch the throughput is multiplied by the transparency
  divided by its average, whatever the average is: there is no test for zero. If the sample
  stream answers true only for probabilities above zero, the average is above zero, and so
  not zero, whenever the branch is taken. If the average is zero and the stream answers
  true for probability zero, the branch is taken and no component of the new throughput is
  finite (a division by zero gives an infinity or a NaN, and so does every product with
  one).
\<close>

theorem unguarded_division:
  assumes "event = makeLocalScatterEvent E (s_data v) (s_info v) (s_ray v)"
    and "transparency = bsdfEval E (bsdf (s_info v)) (makeForwardEvent E event) False"
  shows "(nextBoolean E (s_sampler v) (vavg transparency) = (True, smp) \<longrightarrow>
            sampleInteract E v =
              Go (rdir (s_ray v),
                  vmul (s_throughput v) (vdivs transparency (vavg transparency)), smp))
       \<and> ((\<forall>s p. fst (nextBoolean E s p) \<longrightarrow> flt (Finite 0) p)
            \<and> fst (nextBoolean E (s_sampler v) (vavg transparency)) \<longrightarrow>
            flt (Finite 0) (vavg transparency) \<and> vavg transparency \<noteq> Finite 0)
       \<and> (vavg transparency = Finite 0 \<and> nextBoolean E (s_sampler v) (Finite 0) = (True, smp) \<longrightarrow>
            (\<exists>t. sampleInteract E v = Go (rdir (s_ray v), t, smp) \<and> nonfinite t
                 \<and> s_throughput (flowState (sampleSurface E cfg v)) = t))"
proof -
  have a: "nextBoolean E (s_sampler v) (vavg transparency) = (True, smp) \<longrightarrow>
            sampleInteract E v =
              Go (rdir (s_ray v),
                  vmul (s_throughput v) (vdivs transparency (vavg transparency)), smp)"
    using assms by (simp add: sampleInteract_def Let_def)
  have b: "(\<forall>s p. fst (nextBoolean E s p) \<longrightarrow> flt (Finite 0) p)
            \<and> fst (nextBoolean E (s_sampler v) (vavg transparency)) \<longrightarrow>
            flt (Finite 0) (vavg transparency) \<and> vavg transparency \<noteq> Finite 0"
  proof (intro impI, elim conjE)
    assume "\<forall>s p. fst (nextBoolean E s p) \<longrightarrow> flt (Finite 0) p"
      and "fst (nextBoolean E (s_sampler v) (vavg transparency))"
    then have pos: "flt (Finite 0) (vavg transparency)"
      by blast
    then have "vavg transparency \<noteq> Finite 0"
      by auto
    with pos show "flt (Finite 0) (vavg transparency) \<and> vavg transparency \<noteq> Finite 0"
      by simp
  qed
  have n: "nonfinite (vmul (s_throughput v) (vdivs transparency (Finite 0)))"
    by (simp add: nonfinite_def vmul_def vdivs_def fmul_nonfinite fdiv_zero_nonfinite)
  have t: "sampleInteract E v = Go (w, t, s) \<Longrightarrow> s_throughput (flowState (sampleSurface E cfg v)) = t"
    for w t s
    by (auto simp: sampleSurface_def Let_def split: prod.splits)
  have c: "vavg transparency = Finite 0 \<and> nextBoolean E (s_sampler v) (Finite 0) = (True, smp) \<longrightarrow>
            (\<exists>t. sampleInteract E v = Go (rdir (s_ray v), t, smp) \<and> nonfinite t
                 \<and> s_throughput (flowState (sampleSurface E cfg v)) = t)"
    using a n t by auto
  show ?thesis
    using a b c by blast
qed

text \<open>
  The sample stream of the small scene answers true only above one quarter. A stream that
  always answers true, on BSDF 2 whose transparency is zero: the throughput becomes
  \<open>(NaN, NaN, NaN)\<close>.
\<close>

theorem unguarded_division_witness:
  "\<not> (\<exists>s p. fst (nextBoolean (demoEnv 0) s p) \<and> \<not> flt (Finite 0) p)
   \<and> fst (nextBoolean (demoEnv 0) 0 (vavg (vec3 (1 / 4) (1 / 2) (3 / 4))))
   \<and> vavg (vec3 (1 / 4) (1 / 2) (3 / 4)) \<noteq> Finite 0
   \<and> vavg (vec3 0 0 0) = Finite 0
   \<and> nextBoolean ((demoEnv 2)\<lparr>nextBoolean := \<lambda>s p. (True, s)\<rparr>) 0 (Finite 0) = (True, 0)
   \<and> sampleInteract ((demoEnv 2)\<lparr>nextBoolean := \<lambda>s p. (True, s)\<rparr>) (demoSampleVars 2)
       = Go (vec3 1 0 0, Vec3f NaN NaN NaN, 0)
   \<and> nonfinite (Vec3f NaN NaN NaN)"
proof -
  let ?B = "(demoEnv 2)\<lparr>nextBoolean := \<lambda>s p. (True, s)\<rparr>"
  have good: "fst (nextBoolean (demoEnv 0) s p) \<longrightarrow> flt (Finite 0) p" for s p
    by (cases p) (auto simp: demoEnv_def)
  have ev0: "demoEvent = makeLocalScatterEvent (demoEnv 0) (s_data (demoSampleVars 0))
                (s_info (demoSampleVars 0)) (s_ray (demoSampleVars 0))"
    by (simp add: demoEnv_def)
  have tr0: "vec3 (1 / 4) (1 / 2) (3 / 4) = bsdfEval (demoEnv 0) (bsdf (s_info (demoSampleVars 0)))
                (makeForwardEvent (demoEnv 0) demoEvent) False"
    by (simp add: demoEnv_def demoSampleVars_def demoInfo_def)
  have evB: "demoEvent = makeLocalScatterEvent ?B (s_data (demoSampleVars 2))
                (s_info (demoSampleVars 2)) (s_ray (demoSampleVars 2))"
    by (simp add: demoEnv_def)
  have trB: "vec3 0 0 0 = bsdfEval ?B (bsdf (s_info (demoSampleVars 2)))
                (makeForwardEvent ?B demoEvent) False"
    by (simp add: demoEnv_def demoSampleVars_def demoInfo_def)
  have taken: "fst (nextBoolean (demoEnv 0) (s_sampler (demoSampleVars 0)) (vavg (vec3 (1 / 4) (1 / 2) (3 / 4))))"
    by (simp add: demoEnv_def vec_defs)
  have zero: "vavg (vec3 0 0 0) = Finite 0"
    by (simp add: vec_defs)
  have bad: "nextBoolean ?B (s_sampler (demoSampleVars 2)) (Finite 0) = (True, 0)"
    by (simp add: demoSampleVars_def)
  have c1: "vavg (vec3 (1 / 4) (1 / 2) (3 / 4)) \<noteq> Finite 0"
    using unguarded_division [OF ev0 tr0] good taken by blast
  obtain t where t: "sampleInteract ?B (demoSampleVars 2) = Go (rdir (s_ray (demoSampleVars 2)), t, 0)"
      "nonfinite t"
    using unguarded_division [OF evB trB, where smp = 0] zero bad by blast
  have val: "sampleInteract ?B (demoSampleVars 2) = Go (vec3 1 0 0, Vec3f NaN NaN NaN, 0)"
    by (simp add: sampleInteract_def Let_def demoSampleVars_def vec_defs demo_defs)
  have "t = Vec3f NaN NaN NaN"
    using t(1) val by simp
  then have c2: "nonfinite (Vec3f NaN NaN NaN)"
    using t(2) by simp
  show ?thesis
    using good taken c1 zero bad val c2 by (simp add: demoSampleVars_def)
qed

end
